theory Spec2Isabelle
  imports Complex_Main
begin

section \<open>JavaScript values used by the card workspace\<close>

text \<open>
  The repository holds three variants of one browser program (\<^verbatim>\<open>src/script.js\<close>): a
  z-index layered workspace (lines 1-643, store \<^verbatim>\<open>appConfig\<close>), a freeform workspace
  (lines 644-1533) and a grid-snapping workspace (lines 1534-2336, store \<^verbatim>\<open>CONFIG\<close>).
  Coordinates are modelled as real numbers together with \<^verbatim>\<open>NaN\<close>, layers as integers;
  the rounding of IEEE doubles, the two zeros and the infinities are not modelled.
\<close>

datatype jsnum = Num real | NaN

text \<open>\<^verbatim>\<open>a > b\<close> and \<^verbatim>\<open>Math.min(a, b)\<close> on numbers: a comparison with NaN is false, a
  minimum with NaN is NaN.\<close>

fun js_gt :: "jsnum \<Rightarrow> jsnum \<Rightarrow> bool" where
  "js_gt (Num a) (Num b) = (a > b)"
| "js_gt _ _ = False"

fun Math_min :: "jsnum \<Rightarrow> jsnum \<Rightarrow> jsnum" where
  "Math_min (Num a) (Num b) = Num (min a b)"
| "Math_min _ _ = NaN"

subsection \<open>parseInt\<close>

text \<open>
  \<^verbatim>\<open>parseInt(string)\<close> with no radix, as ECMAScript defines it: leading white space is
  skipped, one sign is read, a \<^verbatim>\<open>0x\<close> prefix selects radix 16, the longest prefix of digits
  is the value, and no digit at all gives NaN. Strings are byte strings here, so the white
  space skipped is the ASCII white space.
\<close>

definition isWhiteSpace :: "char \<Rightarrow> bool" where
  "isWhiteSpace c \<longleftrightarrow> c \<in> set [CHR 0x09, CHR 0x0A, CHR 0x0B, CHR 0x0C, CHR 0x0D, CHR 0x20]"

definition digitOf :: "nat \<Rightarrow> char \<Rightarrow> nat option" where
  "digitOf R c =
     (let k = (of_char c :: nat);
          v = (if 48 \<le> k \<and> k \<le> 57 then Some (k - 48)
               else if 97 \<le> k \<and> k \<le> 122 then Some (k - 87)
               else if 65 \<le> k \<and> k \<le> 90 then Some (k - 55)
               else None)
      in case v of None \<Rightarrow> None | Some d \<Rightarrow> if d < R then Some d else None)"

fun takeDigits :: "nat \<Rightarrow> string \<Rightarrow> nat list" where
  "takeDigits R [] = []"
| "takeDigits R (c # cs) =
     (case digitOf R c of None \<Rightarrow> [] | Some d \<Rightarrow> d # takeDigits R cs)"

definition radixValue :: "int \<Rightarrow> nat list \<Rightarrow> int" where
  "radixValue R ds = foldl (\<lambda>a d. a * R + int d) 0 ds"

definition parseInt :: "string \<Rightarrow> jsnum" where
  "parseInt inputString =
     (let S = dropWhile isWhiteSpace inputString;
          sign = (if take 1 S = ''-'' then - 1 else (1::real));
          S1 = (if take 1 S = ''-'' \<or> take 1 S = ''+'' then drop 1 S else S);
          hex = (take 2 S1 = ''0x'' \<or> take 2 S1 = ''0X'');
          R = (if hex then 16 else 10);
          S2 = (if hex then drop 2 S1 else S1);
          Z = takeDigits R S2
      in if Z = [] then NaN else Num (sign * of_int (radixValue (int R) Z)))"

text \<open>\<^verbatim>\<open>parseInt(el.dataset.row)\<close>: a missing data attribute reads as \<^verbatim>\<open>undefined\<close>, which
  \<^verbatim>\<open>parseInt\<close> converts to the string \<^verbatim>\<open>"undefined"\<close> first.\<close>

definition parseInt_attr :: "string option \<Rightarrow> jsnum" where
  "parseInt_attr a = parseInt (case a of None \<Rightarrow> ''undefined'' | Some s \<Rightarrow> s)"

subsection \<open>Numbers as strings\<close>

text \<open>
  \<^verbatim>\<open>x + "px"\<close> converts the number with the runtime's Number-to-string conversion, which
  is not part of the repository: it is a field of the runtime the program runs on (see
  \<open>runtime\<close> below). \<open>decimalString\<close> is decimal notation, the form the conversion has for
  zero and for magnitudes from \<^verbatim>\<open>1e-6\<close> up to \<^verbatim>\<open>1e21\<close>: a sign, the digits of the integer
  part and, for a fraction, a point and fractional digits.
\<close>

definition digitChar :: "nat \<Rightarrow> char" where
  "digitChar d = ''0123456789'' ! d"

text \<open>The decimal digits of a natural number, given as an integer.\<close>

function showDigits :: "int \<Rightarrow> string" where
  "showDigits n =
     (if n < 10 then [digitChar (nat n)]
      else showDigits (n div 10) @ [digitChar (nat (n mod 10))])"
  by pat_completeness auto
termination
  by (relation "measure nat") auto

declare showDigits.simps [simp del]

fun fracDigits :: "nat \<Rightarrow> real \<Rightarrow> string" where
  "fracDigits k f =
     (if k = 0 \<or> f = 0 then []
      else digitChar (nat \<lfloor>10 * f\<rfloor>) # fracDigits (k - 1) (10 * f - of_int \<lfloor>10 * f\<rfloor>))"

declare fracDigits.simps [simp del]

definition decimalString :: "real \<Rightarrow> string" where
  "decimalString x =
     (let a = \<bar>x\<bar>; f = a - of_int \<lfloor>a\<rfloor>
      in (if x < 0 then ''-'' else []) @ showDigits \<lfloor>a\<rfloor> @
         (if f = 0 then [] else CHR ''.'' # fracDigits 17 f))"






text \<open>\<open>decimalNotation x s\<close>: the string \<open>s\<close> is a decimal numeral of \<open>x\<close>, whatever its
  fractional digits are.\<close>

definition decimalNotation :: "real \<Rightarrow> string \<Rightarrow> bool" where
  "decimalNotation x s =
     (let p = (if x < 0 then ''-'' else []) @ showDigits \<lfloor>\<bar>x\<bar>\<rfloor>
      in take (length p) s = p \<and>
         (drop (length p) s = [] \<or> hd (drop (length p) s) = CHR ''.''))"

text \<open>Truncation toward zero.\<close>

definition truncToZero :: "real \<Rightarrow> int" where
  "truncToZero x = (if x < 0 then - \<lfloor>- x\<rfloor> else \<lfloor>x\<rfloor>)"


subsection \<open>JSON values and the runtime\<close>

datatype json =
    JNull
  | JBool bool
  | JNum real
  | JStr string
  | JArr "json list"
  | JObj "(string \<times> json) list"

text \<open>
  What the program calls but does not define: the Number-to-string conversion,
  \<^verbatim>\<open>JSON.parse\<close> (\<open>None\<close> is its \<^verbatim>\<open>SyntaxError\<close>), \<^verbatim>\<open>JSON.stringify\<close>, and whether
  \<^verbatim>\<open>localStorage.setItem\<close> throws on a string (quota). All functions below take the
  runtime as a parameter, and the theorems hold for every runtime.
\<close>

record runtime =
  numToString :: "real \<Rightarrow> string"
  JSON_parse :: "string \<Rightarrow> json option"
  JSON_stringify :: "json \<Rightarrow> string"
  setItem_throws :: "string \<Rightarrow> bool"

definition toStr :: "runtime \<Rightarrow> jsnum \<Rightarrow> string" where
  "toStr rt n = (case n of NaN \<Rightarrow> ''NaN'' | Num x \<Rightarrow> numToString rt x)"

definition px :: "runtime \<Rightarrow> jsnum \<Rightarrow> string" where
  "px rt n = toStr rt n @ ''px''"

text \<open>A property read \<^verbatim>\<open>v.k\<close> on a parsed value other than \<^verbatim>\<open>null\<close>: \<open>None\<close> is
  \<^verbatim>\<open>undefined\<close>. An object from \<^verbatim>\<open>JSON.parse\<close> has one entry for each key.\<close>

fun getProp :: "string \<Rightarrow> json \<Rightarrow> json option" where
  "getProp k (JObj kvs) = map_of kvs k"
| "getProp k _ = None"

text \<open>\<^verbatim>\<open>Array.prototype.findIndex\<close>; \<^verbatim>\<open>find\<close> returns the element at that index, by
  reference, so a write through the result is an update at the index.\<close>

fun findIndex :: "('a \<Rightarrow> bool) \<Rightarrow> 'a list \<Rightarrow> nat option" where
  "findIndex P [] = None"
| "findIndex P (x # xs) = (if P x then Some 0 else map_option Suc (findIndex P xs))"

section \<open>The layered workspace (lines 1-643)\<close>

subsection \<open>State\<close>

record card =
  card_id :: string
  title :: string
  content :: string
  position :: "jsnum \<times> jsnum"
  zIndex :: int

text \<open>
  The part of a card's DOM element the program reads or that decides what it reads: its
  id, the \<^verbatim>\<open>style.left\<close> and \<^verbatim>\<open>style.top\<close> strings, \<^verbatim>\<open>style.zIndex\<close>, and whether it is in
  the document. A style property holds the string last assigned to it. An element is named
  by its index in \<open>document\<close>; elements are detached, never deleted, so indices are stable.
\<close>

record element =
  el_id :: string
  style_left :: string
  style_top :: string
  style_zIndex :: int
  attached :: bool
  removalScheduled :: bool

text \<open>\<^verbatim>\<open>appConfig\<close>, \<^verbatim>\<open>dragState\<close>, the document and the \<^verbatim>\<open>cardWorkspace\<close> item of
  \<^verbatim>\<open>localStorage\<close>. \<open>setItemCalls\<close> counts the calls of \<^verbatim>\<open>localStorage.setItem\<close>.\<close>

record appState =
  cards :: "card list"
  maxZIndex :: int
  isDragging :: bool
  draggedCard :: "nat option"
  mouseOffset :: "real \<times> real"
  document :: "element list"
  localStorage :: "string option"
  setItemCalls :: nat

record window =
  innerWidth :: real
  innerHeight :: real

definition emDash :: string where
  "emDash = [CHR 0xE2, CHR 0x80, CHR 0x94]"

definition seedCards :: "card list" where
  "seedCards =
     [\<lparr>card_id = ''card-1'', title = ''How to Use?'',
       content = ''Click and drag any card to move it around. Cards can be placed freely anywhere on the screen'',
       position = (Num 100, Num 100), zIndex = 1\<rparr>,
      \<lparr>card_id = ''card-2'', title = ''What matters now?'',
       content = ''Identify your top priority today. Keep it visible, actionable, and small.'',
       position = (Num 450, Num 150), zIndex = 2\<rparr>,
      \<lparr>card_id = ''card-3'', title = ''Idea in progress!'',
       content = ''What if we approached this differently? '' @ emDash @
                 '' Use this space to explore raw thoughts.'',
       position = (Num 200, Num 300), zIndex = 3\<rparr>,
      \<lparr>card_id = ''card-4'', title = ''Looped Thought!'',
       content = ''Recurring pattern or belief? Examine it. Is it still serving you?'',
       position = (Num 500, Num 350), zIndex = 4\<rparr>]"

text \<open>The state when the script has been evaluated, before \<^verbatim>\<open>DOMContentLoaded\<close>; the
  stored item is whatever an earlier session left.\<close>

definition initialState :: "string option \<Rightarrow> appState" where
  "initialState saved =
     \<lparr>cards = seedCards, maxZIndex = 4, isDragging = False, draggedCard = None,
      mouseOffset = (0, 0), document = [], localStorage = saved, setItemCalls = 0\<rparr>"

subsection \<open>Card creation\<close>

definition createCard :: "runtime \<Rightarrow> card \<Rightarrow> appState \<Rightarrow> appState" where
  "createCard rt cardData st =
     st\<lparr>document := document st @
          [\<lparr>el_id = card_id cardData,
            style_left = px rt (fst (position cardData)),
            style_top = px rt (snd (position cardData)),
            style_zIndex = zIndex cardData,
            attached = True, removalScheduled = False\<rparr>]\<rparr>"

definition createAllCards :: "runtime \<Rightarrow> appState \<Rightarrow> appState" where
  "createAllCards rt st = foldl (\<lambda>s cardData. createCard rt cardData s) st (cards st)"

text \<open>\<^verbatim>\<open>Math.random()\<close> is read from the environment: \<open>rnd\<close> holds the two draws.\<close>

definition getRandomPosition :: "window \<Rightarrow> real \<times> real \<Rightarrow> jsnum \<times> jsnum" where
  "getRandomPosition win rnd =
     (Num (fst rnd * (innerWidth win - 300)), Num (snd rnd * (innerHeight win - 400) + 50))"

definition getElementById :: "string \<Rightarrow> element list \<Rightarrow> nat option" where
  "getElementById i doc = findIndex (\<lambda>e. attached e \<and> el_id e = i) doc"

subsection \<open>Persistence\<close>

definition numJson :: "jsnum \<Rightarrow> json" where
  "numJson n = (case n of NaN \<Rightarrow> JNull | Num x \<Rightarrow> JNum x)"

definition cardJson :: "card \<Rightarrow> json" where
  "cardJson c =
     JObj [(''id'', JStr (card_id c)), (''title'', JStr (title c)),
           (''content'', JStr (content c)),
           (''position'', JObj [(''x'', numJson (fst (position c))),
                                (''y'', numJson (snd (position c)))]),
           (''zIndex'', JNum (of_int (zIndex c)))]"

definition workspaceData :: "real \<Rightarrow> appState \<Rightarrow> json" where
  "workspaceData now st =
     JObj [(''cards'', JArr (map cardJson (cards st))),
           (''maxZIndex'', JNum (of_int (maxZIndex st))),
           (''timestamp'', JNum now)]"

text \<open>\<^verbatim>\<open>saveToStorage\<close>: a throwing \<^verbatim>\<open>setItem\<close> is caught and logged, the item stays.\<close>

definition saveToStorage :: "runtime \<Rightarrow> real \<Rightarrow> appState \<Rightarrow> appState" where
  "saveToStorage rt now st =
     (let s = JSON_stringify rt (workspaceData now st)
      in st\<lparr>setItemCalls := Suc (setItemCalls st),
            localStorage := (if setItem_throws rt s then localStorage st else Some s)\<rparr>)"

subsection \<open>The layer counter\<close>

text \<open>
  \<^verbatim>\<open>appConfig.maxZIndex\<close> is a JavaScript number, a double. The program only ever adds one
  to it, with \<^verbatim>\<open>appConfig.maxZIndex++\<close> and \<^verbatim>\<open>++appConfig.maxZIndex\<close>, so the model keeps it
  as an integer and makes the rounding of the addition explicit. Every integer of magnitude
  up to \<^verbatim>\<open>2^53 = 9007199254740992\<close> is a double; above that the doubles are \<open>ulp\<close> apart,
  and the sum is rounded to the nearest of them, to the one with the even significand when
  it lies half way. Adding one to a double never overflows. A counter adopted from storage
  is a double as well: \<^verbatim>\<open>JSON.parse\<close> yields no other numbers.
\<close>

function ulp :: "int \<Rightarrow> int" where
  "ulp a = (if a < 9007199254740992 then 1 else 2 * ulp (a div 2))"
  by pat_completeness auto
termination
  by (relation "measure nat") auto

declare ulp.simps [simp del]

definition roundToDouble :: "int \<Rightarrow> int" where
  "roundToDouble n =
     (let a = \<bar>n\<bar>; u = ulp a; q = a div u; r = a mod u;
          q' = (if 2 * r < u \<or> (2 * r = u \<and> even q) then q else q + 1)
      in sgn n * (q' * u))"

definition increment :: "int \<Rightarrow> int" where
  "increment z = roundToDouble (z + 1)"

subsection \<open>Drag and drop\<close>

definition bringCardToFront :: "string \<Rightarrow> appState \<Rightarrow> appState" where
  "bringCardToFront cardId st =
     (case findIndex (\<lambda>c. card_id c = cardId) (cards st) of
        None \<Rightarrow> st
      | Some i \<Rightarrow>
          let m = increment (maxZIndex st);
              st1 = st\<lparr>maxZIndex := m, cards := (cards st)[i := (cards st ! i)\<lparr>zIndex := m\<rparr>]\<rparr>
          in (case getElementById cardId (document st1) of
                None \<Rightarrow> st1
              | Some j \<Rightarrow>
                  st1\<lparr>document := (document st1)[j := (document st1 ! j)\<lparr>style_zIndex := m\<rparr>]\<rparr>))"

text \<open>A \<^verbatim>\<open>mousedown\<close> on a card element: the element is the event's \<^verbatim>\<open>currentTarget\<close>, and
  the rectangle is what \<^verbatim>\<open>getBoundingClientRect\<close> returns for it at that moment. An event
  target and a dragged card are always elements of the document; the tests of an index
  against the length of \<open>document\<close> below only make the functions total.\<close>

record pressEvent =
  targetIsRemoveButton :: bool
  currentTarget :: nat
  clientX :: real
  clientY :: real
  cardRect_left :: real
  cardRect_top :: real

definition startDrag :: "pressEvent \<Rightarrow> appState \<Rightarrow> appState" where
  "startDrag ev st =
     (if targetIsRemoveButton ev then st
      else if length (document st) \<le> currentTarget ev then st
      else
        let cardEl = currentTarget ev;
            st1 = bringCardToFront (el_id (document st ! cardEl)) st
        in st1\<lparr>isDragging := True, draggedCard := Some cardEl,
               mouseOffset := (clientX ev - cardRect_left ev, clientY ev - cardRect_top ev)\<rparr>)"

definition handleDrag :: "runtime \<Rightarrow> real \<times> real \<Rightarrow> appState \<Rightarrow> appState" where
  "handleDrag rt ev st =
     (case draggedCard st of
        None \<Rightarrow> st
      | Some cardEl \<Rightarrow>
          if \<not> isDragging st \<or> length (document st) \<le> cardEl then st
          else
            let newX = fst ev - fst (mouseOffset st);
                newY = snd ev - snd (mouseOffset st)
            in st\<lparr>document := (document st)[cardEl := (document st ! cardEl)
                     \<lparr>style_left := px rt (Num newX), style_top := px rt (Num newY)\<rparr>]\<rparr>)"

definition updateCardPosition :: "nat \<Rightarrow> appState \<Rightarrow> appState" where
  "updateCardPosition cardEl st =
     (let el = document st ! cardEl
      in case findIndex (\<lambda>data. card_id data = el_id el) (cards st) of
           None \<Rightarrow> st
         | Some i \<Rightarrow>
             st\<lparr>cards := (cards st)[i := (cards st ! i)
                  \<lparr>position := (parseInt (style_left el), parseInt (style_top el))\<rparr>]\<rparr>)"

definition stopDrag :: "runtime \<Rightarrow> real \<Rightarrow> appState \<Rightarrow> appState" where
  "stopDrag rt now st =
     (case draggedCard st of
        None \<Rightarrow> st
      | Some cardEl \<Rightarrow>
          if \<not> isDragging st \<or> length (document st) \<le> cardEl then st
          else
            (saveToStorage rt now (updateCardPosition cardEl st))
              \<lparr>isDragging := False, draggedCard := None, mouseOffset := (0, 0)\<rparr>)"

subsection \<open>Adding and removing cards\<close>

text \<open>\<^verbatim>\<open>removeCard\<close> fades the element out and removes it from the document 300 ms later;
  the store is changed and saved at once. \<open>removalTimer\<close> is that later callback.\<close>

definition removeCard :: "runtime \<Rightarrow> real \<Rightarrow> string \<Rightarrow> appState \<Rightarrow> appState" where
  "removeCard rt now cardId st =
     (let doc = (case getElementById cardId (document st) of
                   None \<Rightarrow> document st
                 | Some j \<Rightarrow> (document st)[j := (document st ! j)\<lparr>removalScheduled := True\<rparr>]);
          cs = (case findIndex (\<lambda>c. card_id c = cardId) (cards st) of
                  None \<Rightarrow> cards st
                | Some cardIndex \<Rightarrow> take cardIndex (cards st) @ drop (Suc cardIndex) (cards st))
      in saveToStorage rt now (st\<lparr>document := doc, cards := cs\<rparr>))"

definition removalTimer :: "nat \<Rightarrow> appState \<Rightarrow> appState" where
  "removalTimer j st =
     (if j < length (document st) \<and> removalScheduled (document st ! j)
      then st\<lparr>document := (document st)[j := (document st ! j)\<lparr>attached := False\<rparr>]\<rparr>
      else st)"

text \<open>The two \<^verbatim>\<open>prompt\<close> results (\<open>None\<close> when cancelled), \<^verbatim>\<open>Date.now()\<close>, the two random
  draws and the window size are read from the environment.\<close>

record addInput =
  promptTitle :: "string option"
  promptContent :: "string option"
  dateNow :: real
  random :: "real \<times> real"
  win :: window

definition falsyText :: "string option \<Rightarrow> bool" where
  "falsyText t = (case t of None \<Rightarrow> True | Some s \<Rightarrow> s = [])"

definition showAddCardDialog :: "runtime \<Rightarrow> addInput \<Rightarrow> appState \<Rightarrow> appState" where
  "showAddCardDialog rt inp st =
     (if falsyText (promptTitle inp) then st
      else if falsyText (promptContent inp) then st
      else
        let m = increment (maxZIndex st);
            newCardData =
              \<lparr>card_id = ''card-'' @ numToString rt (dateNow inp),
               title = the (promptTitle inp),
               content = the (promptContent inp),
               position = getRandomPosition (win inp) (random inp),
               zIndex = m\<rparr>;
            st1 = st\<lparr>maxZIndex := m, cards := cards st @ [newCardData]\<rparr>
        in saveToStorage rt (dateNow inp) (createCard rt newCardData st1))"


subsection \<open>Loading\<close>

text \<open>
  \<^verbatim>\<open>loadFromStorage\<close> adopts \<^verbatim>\<open>workspaceData.cards\<close> as it is when it is an array, whatever
  the array holds. The store of this model holds card records with integer layers and an
  integer counter, as the program itself writes them, so an adopted array with an element
  that is not such a record, or an adopted counter that is truthy but not an integer, is
  reported as \<open>OutsideModel\<close>.
\<close>

datatype error = OutsideModel

definition cardOfJson :: "json \<Rightarrow> card option" where
  "cardOfJson v =
     (case (getProp ''id'' v, getProp ''title'' v, getProp ''content'' v,
            getProp ''position'' v, getProp ''zIndex'' v) of
        (Some (JStr i), Some (JStr t), Some (JStr c), Some p, Some (JNum z)) \<Rightarrow>
          (case (getProp ''x'' p, getProp ''y'' p) of
             (Some (JNum x), Some (JNum y)) \<Rightarrow>
               if of_int \<lfloor>z\<rfloor> = z
               then Some \<lparr>card_id = i, title = t, content = c, position = (Num x, Num y),
                          zIndex = \<lfloor>z\<rfloor>\<rparr>
               else None
           | _ \<Rightarrow> None)
      | _ \<Rightarrow> None)"

text \<open>\<^verbatim>\<open>workspaceData.maxZIndex || 4\<close>: \<^verbatim>\<open>undefined\<close>, \<^verbatim>\<open>null\<close>, \<^verbatim>\<open>false\<close>, \<^verbatim>\<open>0\<close> and
  \<^verbatim>\<open>""\<close> are falsy.\<close>

definition maxZIndexOr4 :: "json option \<Rightarrow> error + int" where
  "maxZIndexOr4 v =
     (case v of
        None \<Rightarrow> Inr 4
      | Some JNull \<Rightarrow> Inr 4
      | Some (JBool b) \<Rightarrow> (if b then Inl OutsideModel else Inr 4)
      | Some (JNum n) \<Rightarrow>
          (if n = 0 then Inr 4 else if of_int \<lfloor>n\<rfloor> = n then Inr \<lfloor>n\<rfloor> else Inl OutsideModel)
      | Some (JStr s) \<Rightarrow> (if s = [] then Inr 4 else Inl OutsideModel)
      | Some (JArr _) \<Rightarrow> Inl OutsideModel
      | Some (JObj _) \<Rightarrow> Inl OutsideModel)"

definition removeAllCardElements :: "element list \<Rightarrow> element list" where
  "removeAllCardElements doc = map (\<lambda>e. e\<lparr>attached := False\<rparr>) doc"

definition adoptWorkspace ::
  "runtime \<Rightarrow> json list \<Rightarrow> json option \<Rightarrow> appState \<Rightarrow> error + appState" where
  "adoptWorkspace rt cs mz st =
     (case those (map cardOfJson cs) of
        None \<Rightarrow> Inl OutsideModel
      | Some cds \<Rightarrow>
          (case maxZIndexOr4 mz of
             Inl e \<Rightarrow> Inl e
           | Inr m \<Rightarrow>
               Inr (createAllCards rt
                      (st\<lparr>cards := cds, maxZIndex := m,
                          document := removeAllCardElements (document st)\<rparr>))))"

text \<open>The \<^verbatim>\<open>try\<close> block: a \<^verbatim>\<open>SyntaxError\<close> of \<^verbatim>\<open>JSON.parse\<close> and the \<^verbatim>\<open>TypeError\<close> of
  reading \<^verbatim>\<open>.cards\<close> of \<^verbatim>\<open>null\<close> are caught and logged.\<close>

definition loadFromStorage :: "runtime \<Rightarrow> appState \<Rightarrow> error + appState" where
  "loadFromStorage rt st =
     (case localStorage st of
        None \<Rightarrow> Inr st
      | Some saved \<Rightarrow>
          if saved = [] then Inr st
          else
            (case JSON_parse rt saved of
               None \<Rightarrow> Inr st
             | Some JNull \<Rightarrow> Inr st
             | Some loaded \<Rightarrow>
                 (case getProp ''cards'' loaded of
                    Some (JArr cs) \<Rightarrow>
                      adoptWorkspace rt cs (getProp ''maxZIndex'' loaded) st
                  | _ \<Rightarrow> Inr st)))"

definition infoCards :: "element list \<Rightarrow> element list" where
  "infoCards doc = filter attached doc"

definition initializeApp :: "runtime \<Rightarrow> appState \<Rightarrow> error + appState" where
  "initializeApp rt st =
     (case loadFromStorage rt st of
        Inl e \<Rightarrow> Inl e
      | Inr st1 \<Rightarrow>
          Inr (if length (infoCards (document st1)) = 0 then createAllCards rt st1 else st1))"

subsection \<open>Window resize\<close>

definition resizeCard :: "window \<Rightarrow> card \<Rightarrow> card" where
  "resizeCard w cardData =
     (let maxX = Num (innerWidth w - 300);
          maxY = Num (innerHeight w - 400);
          x = fst (position cardData);
          y = snd (position cardData)
      in cardData\<lparr>position := (if js_gt x maxX then maxX else x,
                                if js_gt y maxY then maxY else y)\<rparr>)"

definition restyle :: "runtime \<Rightarrow> element list \<Rightarrow> card \<Rightarrow> element list" where
  "restyle rt doc cardData =
     (case getElementById (card_id cardData) doc of
        None \<Rightarrow> doc
      | Some j \<Rightarrow>
          doc[j := (doc ! j)\<lparr>style_left := px rt (fst (position cardData)),
                             style_top := px rt (snd (position cardData))\<rparr>])"

definition handleWindowResize :: "runtime \<Rightarrow> window \<Rightarrow> real \<Rightarrow> appState \<Rightarrow> appState" where
  "handleWindowResize rt w now st =
     (let cs = map (resizeCard w) (cards st)
      in saveToStorage rt now
           (st\<lparr>cards := cs, document := foldl (restyle rt) (document st) cs\<rparr>))"

subsection \<open>Events\<close>

datatype event =
    Press pressEvent
  | Move "real \<times> real"
  | Release real
  | AddCard addInput
  | RemoveCard real string
  | RemovalTimer nat
  | Resize window real

fun step :: "runtime \<Rightarrow> event \<Rightarrow> appState \<Rightarrow> appState" where
  "step rt (Press ev) st = startDrag ev st"
| "step rt (Move ev) st = handleDrag rt ev st"
| "step rt (Release now) st = stopDrag rt now st"
| "step rt (AddCard inp) st = showAddCardDialog rt inp st"
| "step rt (RemoveCard now cardId) st = removeCard rt now cardId st"
| "step rt (RemovalTimer j) st = removalTimer j st"
| "step rt (Resize w now) st = handleWindowResize rt w now st"

definition run :: "runtime \<Rightarrow> event list \<Rightarrow> appState \<Rightarrow> appState" where
  "run rt evs st = foldl (\<lambda>s ev. step rt ev s) st evs"


section \<open>The freeform workspace (lines 644-1533): releasing a card\<close>

text \<open>
  The freeform variant keeps \<^verbatim>\<open>CONFIG.cardData\<close> with a \<^verbatim>\<open>freePosition\<close> for each card and
  has no layers. Only the release of a drag is modelled here: \<^verbatim>\<open>stopDragging\<close> with
  \<^verbatim>\<open>updateCardDataPosition\<close>, \<^verbatim>\<open>saveToLocalStorage\<close> and \<^verbatim>\<open>cleanupAfterDrag\<close>. Of a card
  element, its id and its \<^verbatim>\<open>style.left\<close> and \<^verbatim>\<open>style.top\<close> strings are kept.
\<close>

record freeCard =
  f_id :: string
  f_title :: string
  f_content :: string
  f_freePosition :: "jsnum \<times> jsnum"

record freeElement =
  fe_id :: string
  fe_left :: string
  fe_top :: string

record freeState =
  f_cardData :: "freeCard list"
  f_document :: "freeElement list"
  f_isDragging :: bool
  f_draggedCard :: "nat option"
  f_startPosition :: "(real \<times> real) option"
  f_offset :: "real \<times> real"
  f_localStorage :: "string option"
  f_setItemCalls :: nat

definition updateCardDataPosition_free ::
  "nat \<Rightarrow> jsnum \<times> jsnum \<Rightarrow> freeState \<Rightarrow> freeState" where
  "updateCardDataPosition_free cardEl freePosition st =
     (case findIndex (\<lambda>data. f_id data = fe_id (f_document st ! cardEl)) (f_cardData st) of
        None \<Rightarrow> st
      | Some i \<Rightarrow>
          st\<lparr>f_cardData := (f_cardData st)[i := (f_cardData st ! i)
               \<lparr>f_freePosition := freePosition\<rparr>]\<rparr>)"

definition freeCardJson :: "freeCard \<Rightarrow> json" where
  "freeCardJson c =
     JObj [(''id'', JStr (f_id c)), (''title'', JStr (f_title c)),
           (''content'', JStr (f_content c)),
           (''freePosition'', JObj [(''x'', numJson (fst (f_freePosition c))),
                                    (''y'', numJson (snd (f_freePosition c)))])]"

definition saveToLocalStorage :: "runtime \<Rightarrow> real \<Rightarrow> freeState \<Rightarrow> freeState" where
  "saveToLocalStorage rt now st =
     (let s = JSON_stringify rt
                (JObj [(''cardData'', JArr (map freeCardJson (f_cardData st))),
                       (''timestamp'', JNum now)])
      in st\<lparr>f_setItemCalls := Suc (f_setItemCalls st),
            f_localStorage := (if setItem_throws rt s then f_localStorage st else Some s)\<rparr>)"

definition cleanupAfterDrag_free :: "freeState \<Rightarrow> freeState" where
  "cleanupAfterDrag_free st =
     st\<lparr>f_isDragging := False, f_draggedCard := None, f_startPosition := None,
        f_offset := (0, 0)\<rparr>"

definition stopDragging_free :: "runtime \<Rightarrow> real \<Rightarrow> freeState \<Rightarrow> freeState" where
  "stopDragging_free rt now st =
     (case f_draggedCard st of
        None \<Rightarrow> st
      | Some cardEl \<Rightarrow>
          if \<not> f_isDragging st \<or> length (f_document st) \<le> cardEl then st
          else
            cleanupAfterDrag_free
              (saveToLocalStorage rt now
                 (updateCardDataPosition_free cardEl
                    (parseInt (fe_left (f_document st ! cardEl)),
                     parseInt (fe_top (f_document st ! cardEl))) st)))"

section \<open>The grid workspace (lines 1534-2336)\<close>

subsection \<open>State\<close>

text \<open>
  A card of \<^verbatim>\<open>CONFIG.cardData\<close>: \<^verbatim>\<open>position\<close> is the grid cell \<^verbatim>\<open>{row, col}\<close>,
  \<^verbatim>\<open>freePosition\<close> the point \<^verbatim>\<open>{x, y}\<close>; \<open>None\<close> stands for \<^verbatim>\<open>null\<close> and for a missing
  property, which the program does not tell apart.
\<close>

record gridCard =
  g_id :: string
  g_title :: string
  g_content :: string
  g_type :: "string option"
  g_position :: "(jsnum \<times> jsnum) option"
  g_freePosition :: "(jsnum \<times> jsnum) option"

text \<open>A parent of card elements: the document body, or the k-th \<^verbatim>\<open>.grid-cell\<close> in
  document order.\<close>

datatype node = Body | Cell nat

text \<open>
  The grid cells come from the page's HTML, which is not part of the repository: their
  ids and data attributes are part of the state the program starts in. \<open>cell_rect\<close> is the
  cell's bounding rectangle \<open>(left, right, top, bottom)\<close>, which the layout keeps fixed
  here, \<open>cell_children\<close> the card elements in the cell, in child order.
\<close>

record gridCell =
  cell_id :: string
  cell_row :: "string option"
  cell_col :: "string option"
  cell_rect :: "real \<times> real \<times> real \<times> real"
  cell_children :: "nat list"
  drop_target :: bool

record cardElement =
  ce_id :: string
  cls_dragging :: bool
  cls_free_position :: bool
  ce_left :: string
  ce_top :: string
  ce_width :: string
  ce_height :: string
  ce_row :: "string option"
  ce_col :: "string option"

text \<open>\<^verbatim>\<open>CONFIG.cardData\<close>, the document (card elements are named by their index in
  \<open>elements\<close>; a card element is a child of the body or of one cell) and \<^verbatim>\<open>dragState\<close>.\<close>

record gridState =
  cardData :: "gridCard list"
  elements :: "cardElement list"
  bodyChildren :: "nat list"
  gridCells :: "gridCell list"
  body_row :: "string option"
  body_col :: "string option"
  g_isDragging :: bool
  g_draggedCard :: "nat option"
  startPosition :: "(real \<times> real) option"
  offset :: "real \<times> real"
  originalParent :: "node option"
  wasInGrid :: bool

subsection \<open>The document\<close>

definition parentElement :: "nat \<Rightarrow> gridState \<Rightarrow> node option" where
  "parentElement h st =
     (if h \<in> set (bodyChildren st) then Some Body
      else map_option Cell (findIndex (\<lambda>c. h \<in> set (cell_children c)) (gridCells st)))"

definition detach :: "nat \<Rightarrow> gridState \<Rightarrow> gridState" where
  "detach h st =
     st\<lparr>bodyChildren := removeAll h (bodyChildren st),
        gridCells := map (\<lambda>c. c\<lparr>cell_children := removeAll h (cell_children c)\<rparr>) (gridCells st)\<rparr>"

text \<open>\<^verbatim>\<open>parent.appendChild(card)\<close> moves the element: it leaves its old parent and becomes
  the last child of the new one.\<close>

fun appendChild :: "node \<Rightarrow> nat \<Rightarrow> gridState \<Rightarrow> gridState" where
  "appendChild Body h st =
     (let s = detach h st in s\<lparr>bodyChildren := bodyChildren s @ [h]\<rparr>)"
| "appendChild (Cell k) h st =
     (let s = detach h st
      in if k < length (gridCells s)
         then s\<lparr>gridCells := (gridCells s)[k := (gridCells s ! k)
                  \<lparr>cell_children := cell_children (gridCells s ! k) @ [h]\<rparr>]\<rparr>
         else s)"

text \<open>\<^verbatim>\<open>node.dataset.row\<close> and \<^verbatim>\<open>node.dataset.col\<close>.\<close>

fun dataset_row :: "gridState \<Rightarrow> node \<Rightarrow> string option" where
  "dataset_row st Body = body_row st"
| "dataset_row st (Cell k) = (if k < length (gridCells st) then cell_row (gridCells st ! k) else None)"

fun dataset_col :: "gridState \<Rightarrow> node \<Rightarrow> string option" where
  "dataset_col st Body = body_col st"
| "dataset_col st (Cell k) = (if k < length (gridCells st) then cell_col (gridCells st ! k) else None)"

text \<open>Assigning \<^verbatim>\<open>undefined\<close> to a data attribute stores the string \<^verbatim>\<open>"undefined"\<close>.\<close>

definition attrString :: "string option \<Rightarrow> string option" where
  "attrString a = Some (case a of None \<Rightarrow> ''undefined'' | Some v \<Rightarrow> v)"

definition modifyElement :: "nat \<Rightarrow> (cardElement \<Rightarrow> cardElement) \<Rightarrow> gridState \<Rightarrow> gridState" where
  "modifyElement h f st =
     (if h < length (elements st) then st\<lparr>elements := (elements st)[h := f (elements st ! h)]\<rparr>
      else st)"

definition attachedTo :: "gridState \<Rightarrow> nat \<Rightarrow> bool" where
  "attachedTo st h = (parentElement h st \<noteq> None)"

text \<open>\<^verbatim>\<open>document.getElementById\<close> for a card id: the first attached card element with that
  id, in the order of creation (ids of attached elements are distinct whenever those of the
  store are, so the order does not matter then).\<close>

definition getCardElementById :: "string \<Rightarrow> gridState \<Rightarrow> nat option" where
  "getCardElementById i st =
     findIndex (\<lambda>h. attachedTo st h \<and> ce_id (elements st ! h) = i) [0 ..< length (elements st)]"

subsection \<open>Card creation\<close>

definition createSingleCard :: "gridCard \<Rightarrow> gridState \<Rightarrow> nat \<times> gridState" where
  "createSingleCard cd st =
     (length (elements st),
      st\<lparr>elements := elements st @
           [\<lparr>ce_id = g_id cd, cls_dragging = False, cls_free_position = False,
             ce_left = [], ce_top = [], ce_width = [], ce_height = [],
             ce_row = None, ce_col = None\<rparr>]\<rparr>)"

definition positionCardFreely ::
  "runtime \<Rightarrow> nat \<Rightarrow> jsnum \<times> jsnum \<Rightarrow> gridState \<Rightarrow> gridState" where
  "positionCardFreely rt h freePosition st =
     appendChild Body h
       (modifyElement h
          (\<lambda>e. e\<lparr>cls_free_position := True,
                 ce_left := px rt (fst freePosition), ce_top := px rt (snd freePosition),
                 ce_width := ''280px'', ce_height := ''180px''\<rparr>) st)"

definition positionCardInGrid ::
  "runtime \<Rightarrow> nat \<Rightarrow> jsnum \<times> jsnum \<Rightarrow> gridState \<Rightarrow> gridState" where
  "positionCardInGrid rt h gridPosition st =
     (case findIndex
             (\<lambda>c. cell_id c = ''cell-'' @ toStr rt (fst gridPosition) @ ''-'' @
                            toStr rt (snd gridPosition))
             (gridCells st) of
        None \<Rightarrow> st
      | Some k \<Rightarrow>
          modifyElement h
            (\<lambda>e. e\<lparr>ce_row := Some (toStr rt (fst gridPosition)),
                   ce_col := Some (toStr rt (snd gridPosition))\<rparr>)
            (appendChild (Cell k) h st))"

definition positionCard :: "runtime \<Rightarrow> nat \<Rightarrow> gridCard \<Rightarrow> gridState \<Rightarrow> gridState" where
  "positionCard rt h cd st =
     (case g_freePosition cd of
        Some fp \<Rightarrow> positionCardFreely rt h fp st
      | None \<Rightarrow>
          (case g_position cd of
             Some gp \<Rightarrow> positionCardInGrid rt h gp st
           | None \<Rightarrow> st))"

definition createAndPosition :: "runtime \<Rightarrow> gridState \<Rightarrow> gridCard \<Rightarrow> gridState" where
  "createAndPosition rt st cd =
     (let (h, st1) = createSingleCard cd st in positionCard rt h cd st1)"

definition createAllCards_grid :: "runtime \<Rightarrow> gridState \<Rightarrow> gridState" where
  "createAllCards_grid rt st = foldl (createAndPosition rt) st (cardData st)"

subsection \<open>Drag and drop\<close>

text \<open>A \<^verbatim>\<open>TypeError\<close> thrown inside an event handler ends the handler; the error carries
  the state at that point.\<close>

datatype gridError = TypeError gridState

record gridPress =
  g_currentTarget :: nat
  g_clientX :: real
  g_clientY :: real
  g_rect_left :: real
  g_rect_top :: real

definition convertCardToFreePosition ::
  "runtime \<Rightarrow> nat \<Rightarrow> real \<times> real \<Rightarrow> gridState \<Rightarrow> gridState" where
  "convertCardToFreePosition rt h cardRect st =
     appendChild Body h
       (modifyElement h
          (\<lambda>e. e\<lparr>cls_free_position := True,
                 ce_left := px rt (Num (fst cardRect)), ce_top := px rt (Num (snd cardRect)),
                 ce_width := ''280px'', ce_height := ''180px''\<rparr>) st)"

text \<open>\<^verbatim>\<open>startDragging\<close>: reading \<^verbatim>\<open>card.parentElement.classList\<close> of a detached card throws
  while the new \<^verbatim>\<open>dragState\<close> is being built, before anything is assigned.\<close>

definition startDragging :: "runtime \<Rightarrow> gridPress \<Rightarrow> gridState \<Rightarrow> gridError + gridState" where
  "startDragging rt ev st =
     (let cardEl = g_currentTarget ev
      in if length (elements st) \<le> cardEl then Inr st
         else
           (case parentElement cardEl st of
              None \<Rightarrow> Inl (TypeError st)
            | Some p \<Rightarrow>
                let st1 = st\<lparr>g_isDragging := True, g_draggedCard := Some cardEl,
                             startPosition := Some (g_clientX ev, g_clientY ev),
                             offset := (g_clientX ev - g_rect_left ev, g_clientY ev - g_rect_top ev),
                             originalParent := Some p,
                             wasInGrid := (p \<noteq> Body)\<rparr>;
                    st2 = convertCardToFreePosition rt cardEl (g_rect_left ev, g_rect_top ev) st1
                in Inr (modifyElement cardEl (\<lambda>e. e\<lparr>cls_dragging := True\<rparr>) st2)))"

definition inRect :: "real \<Rightarrow> real \<Rightarrow> real \<times> real \<times> real \<times> real \<Rightarrow> bool" where
  "inRect mouseX mouseY r =
     (case r of (rLeft, rRight, rTop, rBottom) \<Rightarrow>
        mouseX \<ge> rLeft \<and> mouseX \<le> rRight \<and> mouseY \<ge> rTop \<and> mouseY \<le> rBottom)"

definition findGridCellUnderMouse :: "real \<Rightarrow> real \<Rightarrow> gridState \<Rightarrow> nat option" where
  "findGridCellUnderMouse mouseX mouseY st =
     findIndex (\<lambda>c. inRect mouseX mouseY (cell_rect c)) (gridCells st)"

definition clearDropTargets :: "gridState \<Rightarrow> gridState" where
  "clearDropTargets st = st\<lparr>gridCells := map (\<lambda>c. c\<lparr>drop_target := False\<rparr>) (gridCells st)\<rparr>"

definition showDropTargetFeedback :: "real \<Rightarrow> real \<Rightarrow> gridState \<Rightarrow> gridState" where
  "showDropTargetFeedback mouseX mouseY st =
     (let st1 = clearDropTargets st
      in case findGridCellUnderMouse mouseX mouseY st1 of
           None \<Rightarrow> st1
         | Some k \<Rightarrow>
             st1\<lparr>gridCells := (gridCells st1)[k := (gridCells st1 ! k)\<lparr>drop_target := True\<rparr>]\<rparr>)"

definition handleMouseMovement :: "runtime \<Rightarrow> real \<times> real \<Rightarrow> gridState \<Rightarrow> gridState" where
  "handleMouseMovement rt ev st =
     (case g_draggedCard st of
        None \<Rightarrow> st
      | Some cardEl \<Rightarrow>
          if \<not> g_isDragging st then st
          else
            let newX = fst ev - fst (offset st);
                newY = snd ev - snd (offset st)
            in showDropTargetFeedback (fst ev) (snd ev)
                 (modifyElement cardEl
                    (\<lambda>e. e\<lparr>ce_left := px rt (Num newX), ce_top := px rt (Num newY)\<rparr>) st))"

definition updateCardDataPosition ::
  "nat \<Rightarrow> (jsnum \<times> jsnum) option \<Rightarrow> (jsnum \<times> jsnum) option \<Rightarrow> gridState \<Rightarrow> gridState" where
  "updateCardDataPosition h gridPosition freePosition st =
     (if length (elements st) \<le> h then st
      else
        (case findIndex (\<lambda>data. g_id data = ce_id (elements st ! h)) (cardData st) of
           None \<Rightarrow> st
         | Some i \<Rightarrow>
             (case gridPosition of
                Some gp \<Rightarrow>
                  st\<lparr>cardData := (cardData st)[i := (cardData st ! i)
                       \<lparr>g_position := Some gp, g_freePosition := None\<rparr>]\<rparr>
              | None \<Rightarrow>
                  st\<lparr>cardData := (cardData st)[i := (cardData st ! i)
                       \<lparr>g_position := None, g_freePosition := freePosition\<rparr>]\<rparr>)))"

text \<open>\<^verbatim>\<open>moveCardToGridCell(card, targetCell)\<close>; the target is whatever element the caller
  passes. The \<^verbatim>\<open>placed\<close> class it adds for half a second is styling only.\<close>

definition moveCardToGridCell :: "nat \<Rightarrow> node \<Rightarrow> gridState \<Rightarrow> gridState" where
  "moveCardToGridCell h targetCell st =
     (let st1 = modifyElement h
                  (\<lambda>e. e\<lparr>cls_free_position := False,
                         ce_left := [], ce_top := [], ce_width := [], ce_height := [],
                         ce_row := attrString (dataset_row st targetCell),
                         ce_col := attrString (dataset_col st targetCell)\<rparr>) st;
          st2 = appendChild targetCell h st1
      in updateCardDataPosition h
           (Some (parseInt_attr (dataset_row st targetCell),
                  parseInt_attr (dataset_col st targetCell)))
           None st2)"

text \<open>\<^verbatim>\<open>swapCardPositions\<close>: both parents are read first. Moving a card to a \<^verbatim>\<open>null\<close>
  parent throws when \<^verbatim>\<open>targetCell.dataset\<close> is read, after the card's free-position
  styles have been cleared.\<close>

definition clearFreeStyles :: "nat \<Rightarrow> gridState \<Rightarrow> gridState" where
  "clearFreeStyles h st =
     modifyElement h
       (\<lambda>e. e\<lparr>cls_free_position := False,
              ce_left := [], ce_top := [], ce_width := [], ce_height := []\<rparr>) st"

definition moveCardToParent :: "nat \<Rightarrow> node option \<Rightarrow> gridState \<Rightarrow> gridError + gridState" where
  "moveCardToParent h parent st =
     (case parent of
        None \<Rightarrow> Inl (TypeError (clearFreeStyles h st))
      | Some targetCell \<Rightarrow> Inr (moveCardToGridCell h targetCell st))"

definition swapCardPositions :: "nat \<Rightarrow> nat \<Rightarrow> gridState \<Rightarrow> gridError + gridState" where
  "swapCardPositions card1 card2 st =
     (let card1Parent = parentElement card1 st;
          card2Parent = parentElement card2 st
      in case moveCardToParent card1 card2Parent st of
           Inl e \<Rightarrow> Inl e
         | Inr st1 \<Rightarrow> moveCardToParent card2 card1Parent st1)"

text \<open>\<^verbatim>\<open>targetCell.querySelector(".info-card:not(.dragging)")\<close>: the first card element in
  the cell that does not carry the class \<^verbatim>\<open>dragging\<close>.\<close>

definition existingCardIn :: "nat \<Rightarrow> gridState \<Rightarrow> nat option" where
  "existingCardIn k st =
     (if k < length (gridCells st)
      then find (\<lambda>h. h < length (elements st) \<and> \<not> cls_dragging (elements st ! h))
             (cell_children (gridCells st ! k))
      else None)"

definition snapCardToGrid :: "nat \<Rightarrow> nat \<Rightarrow> gridState \<Rightarrow> gridError + gridState" where
  "snapCardToGrid cardEl k st =
     (case existingCardIn k st of
        Some existingCard \<Rightarrow> swapCardPositions cardEl existingCard st
      | None \<Rightarrow> Inr (moveCardToGridCell cardEl (Cell k) st))"

definition finalizeCardFreePosition :: "nat \<Rightarrow> gridState \<Rightarrow> gridState" where
  "finalizeCardFreePosition h st =
     (if length (elements st) \<le> h then st
      else
        let st1 = modifyElement h (\<lambda>e. e\<lparr>cls_dragging := False\<rparr>) st
        in updateCardDataPosition h None
             (Some (parseInt (ce_left (elements st1 ! h)), parseInt (ce_top (elements st1 ! h))))
             st1)"

definition cleanupAfterDrag :: "gridState \<Rightarrow> gridState" where
  "cleanupAfterDrag st =
     (let st1 = (case g_draggedCard st of
                   None \<Rightarrow> st
                 | Some h \<Rightarrow> modifyElement h (\<lambda>e. e\<lparr>cls_dragging := False\<rparr>) st)
      in (clearDropTargets st1)
           \<lparr>g_isDragging := False, g_draggedCard := None, startPosition := None,
            offset := (0, 0), originalParent := None, wasInGrid := False\<rparr>)"

definition stopDragging :: "real \<times> real \<Rightarrow> gridState \<Rightarrow> gridError + gridState" where
  "stopDragging ev st =
     (case g_draggedCard st of
        None \<Rightarrow> Inr st
      | Some cardEl \<Rightarrow>
          if \<not> g_isDragging st then Inr st
          else
            (case findGridCellUnderMouse (fst ev) (snd ev) st of
               Some dropTarget \<Rightarrow>
                 (case snapCardToGrid cardEl dropTarget st of
                    Inl e \<Rightarrow> Inl e
                  | Inr st1 \<Rightarrow> Inr (cleanupAfterDrag st1))
             | None \<Rightarrow> Inr (cleanupAfterDrag (finalizeCardFreePosition cardEl st))))"

subsection \<open>Adding cards and resizing\<close>

definition showAddCardDialog_grid :: "runtime \<Rightarrow> addInput \<Rightarrow> gridState \<Rightarrow> gridState" where
  "showAddCardDialog_grid rt inp st =
     (if falsyText (promptTitle inp) then st
      else if falsyText (promptContent inp) then st
      else
        let newCardData =
              \<lparr>g_id = ''card-'' @ numToString rt (dateNow inp),
               g_title = the (promptTitle inp),
               g_content = the (promptContent inp),
               g_type = Some ''idea'',
               g_position = None,
               g_freePosition =
                 Some (Num (fst (random inp) * (innerWidth (win inp) - 300)),
                       Num (snd (random inp) * (innerHeight (win inp) - 200) + 100))\<rparr>
        in createAndPosition rt (st\<lparr>cardData := cardData st @ [newCardData]\<rparr>) newCardData)"

definition resizeGridCard :: "window \<Rightarrow> gridCard \<Rightarrow> gridCard" where
  "resizeGridCard w cd =
     (case g_freePosition cd of
        None \<Rightarrow> cd
      | Some fp \<Rightarrow>
          cd\<lparr>g_freePosition :=
               Some (Math_min (fst fp) (Num (innerWidth w - 300)),
                     Math_min (snd fp) (Num (innerHeight w - 200)))\<rparr>)"

definition restyleFree :: "runtime \<Rightarrow> gridState \<Rightarrow> gridCard \<Rightarrow> gridState" where
  "restyleFree rt st cd =
     (case g_freePosition cd of
        None \<Rightarrow> st
      | Some fp \<Rightarrow>
          (case getCardElementById (g_id cd) st of
             None \<Rightarrow> st
           | Some h \<Rightarrow>
               if cls_free_position (elements st ! h)
               then modifyElement h
                      (\<lambda>e. e\<lparr>ce_left := px rt (fst fp), ce_top := px rt (snd fp)\<rparr>) st
               else st))"

definition handleWindowResize_grid :: "runtime \<Rightarrow> window \<Rightarrow> gridState \<Rightarrow> gridState" where
  "handleWindowResize_grid rt w st =
     (let cs = map (resizeGridCard w) (cardData st)
      in foldl (restyleFree rt) (st\<lparr>cardData := cs\<rparr>) cs)"

subsection \<open>Start-up\<close>

text \<open>The seed cards get their positions from \<^verbatim>\<open>Math.random()\<close> when the script is
  evaluated; \<open>r1\<close> to \<open>r4\<close> are the draws.\<close>

definition seedPosition :: "window \<Rightarrow> real \<times> real \<Rightarrow> (jsnum \<times> jsnum) option" where
  "seedPosition w rnd =
     Some (Num (fst rnd * (innerWidth w - 500)), Num (snd rnd * (innerHeight w - 500) + 100))"

definition closingQuote :: string where
  "closingQuote = [CHR 0xE2, CHR 0x80, CHR 0x9D]"

definition gridSeedCards ::
  "window \<Rightarrow> real \<times> real \<Rightarrow> real \<times> real \<Rightarrow> real \<times> real \<Rightarrow> real \<times> real \<Rightarrow> gridCard list" where
  "gridSeedCards w r1 r2 r3 r4 =
     [\<lparr>g_id = ''card-1'', g_title = ''How to Use?'',
       g_content = ''Click and drag any card to move it around, Drop cards on the grid to organize them, Cards can be placed freely anywhere on the screen'',
       g_type = None, g_position = None, g_freePosition = seedPosition w r1\<rparr>,
      \<lparr>g_id = ''card-2'', g_title = ''What matters now?'',
       g_content = ''Identify your top priority today. Keep it visible, actionable, and small.'',
       g_type = None, g_position = None, g_freePosition = seedPosition w r2\<rparr>,
      \<lparr>g_id = ''card-3'', g_title = ''Idea in progress!'',
       g_content = ''What if we approached this differently?'' @ closingQuote @ '' '' @ emDash @
                   '' Use this space to explore raw thoughts.'',
       g_type = None, g_position = None, g_freePosition = seedPosition w r3\<rparr>,
      \<lparr>g_id = ''card-4'', g_title = ''Looped Thought!'',
       g_content = ''Recurring pattern or belief? Examine it. Is it still serving you?'',
       g_type = None, g_position = None, g_freePosition = seedPosition w r4\<rparr>]"

text \<open>The state after \<^verbatim>\<open>initializeWorkspace\<close>, on a page with the given grid cells and
  body attributes.\<close>

definition initializeWorkspace ::
  "runtime \<Rightarrow> gridCard list \<Rightarrow> gridCell list \<Rightarrow> string option \<Rightarrow> string option \<Rightarrow> gridState" where
  "initializeWorkspace rt seeds cells bRow bCol =
     createAllCards_grid rt
       \<lparr>cardData = seeds, elements = [], bodyChildren = [], gridCells = cells,
        body_row = bRow, body_col = bCol,
        g_isDragging = False, g_draggedCard = None, startPosition = None,
        offset = (0, 0), originalParent = None, wasInGrid = False\<rparr>"

subsection \<open>A runtime for evaluating the model\<close>

text \<open>
  A runtime that prints numbers in decimal notation, serialises with \<open>sampleStringify\<close>, never
  runs out of quota and parses the serialised \<open>sampleBlobs\<close> only; it is used to run the
  model on concrete inputs.
\<close>

fun joinWith :: "string \<Rightarrow> string list \<Rightarrow> string" where
  "joinWith sep [] = []"
| "joinWith sep [x] = x"
| "joinWith sep (x # y # ys) = x @ sep @ joinWith sep (y # ys)"

definition quote :: "string \<Rightarrow> string" where
  "quote s = [CHR 0x22] @ s @ [CHR 0x22]"

fun sampleStringify :: "json \<Rightarrow> string"
  and sampleStringifyList :: "json list \<Rightarrow> string list"
  and sampleStringifyFields :: "(string \<times> json) list \<Rightarrow> string list" where
  "sampleStringify JNull = ''null''"
| "sampleStringify (JBool b) = (if b then ''true'' else ''false'')"
| "sampleStringify (JNum x) = decimalString x"
| "sampleStringify (JStr s) = quote s"
| "sampleStringify (JArr vs) = ''['' @ joinWith '','' (sampleStringifyList vs) @ '']''"
| "sampleStringify (JObj kvs) = ''{'' @ joinWith '','' (sampleStringifyFields kvs) @ ''}''"
| "sampleStringifyList [] = []"
| "sampleStringifyList (v # vs) = sampleStringify v # sampleStringifyList vs"
| "sampleStringifyFields [] = []"
| "sampleStringifyFields ((k, v) # kvs) = (quote k @ '':'' @ sampleStringify v) # sampleStringifyFields kvs"

definition highLayerBlob :: json where
  "highLayerBlob =
     JObj [(''cards'',
            JArr [JObj [(''id'', JStr ''card-9''), (''title'', JStr ''T''),
                        (''content'', JStr ''C''),
                        (''position'', JObj [(''x'', JNum 5), (''y'', JNum 6)]),
                        (''zIndex'', JNum 10)]])]"

text \<open>A stored workspace of two cards whose counter is \<^verbatim>\<open>9007199254740992\<close>.\<close>

definition limitBlob :: json where
  "limitBlob =
     JObj [(''cards'',
            JArr [JObj [(''id'', JStr ''card-1''), (''title'', JStr ''A''),
                        (''content'', JStr ''a''),
                        (''position'', JObj [(''x'', JNum 100), (''y'', JNum 100)]),
                        (''zIndex'', JNum 1)],
                  JObj [(''id'', JStr ''card-2''), (''title'', JStr ''B''),
                        (''content'', JStr ''b''),
                        (''position'', JObj [(''x'', JNum 450), (''y'', JNum 150)]),
                        (''zIndex'', JNum 2)]]),
           (''maxZIndex'', JNum 9007199254740992)]"

definition sampleBlobs :: "json list" where
  "sampleBlobs =
     [JNull, JObj [(''cardData'', JArr [])], JObj [(''cards'', JArr [])], highLayerBlob,
      limitBlob]"

definition sampleParse :: "string \<Rightarrow> json option" where
  "sampleParse s = find (\<lambda>v. sampleStringify v = s) sampleBlobs"

definition rt0 :: runtime where
  "rt0 = \<lparr>numToString = decimalString, JSON_parse = sampleParse,
          JSON_stringify = sampleStringify, setItem_throws = (\<lambda>s. False)\<rparr>"


text \<open>A page with a grid of two rows and two columns (\<^verbatim>\<open>CONFIG.gridSize\<close>), cells of
  280 by 180 pixels, and a body without data attributes.\<close>

definition sampleCell :: "nat \<Rightarrow> nat \<Rightarrow> gridCell" where
  "sampleCell r c =
     \<lparr>cell_id = ''cell-'' @ showDigits (int r) @ ''-'' @ showDigits (int c),
      cell_row = Some (showDigits (int r)), cell_col = Some (showDigits (int c)),
      cell_rect = (100 + 300 * real c, 380 + 300 * real c, 100 + 200 * real r, 280 + 200 * real r),
      cell_children = [], drop_target = False\<rparr>"

definition sampleGrid :: "gridCell list" where
  "sampleGrid = [sampleCell 0 0, sampleCell 0 1, sampleCell 1 0, sampleCell 1 1]"

definition sampleWindow :: window where
  "sampleWindow = \<lparr>innerWidth = 1500, innerHeight = 1000\<rparr>"

definition samplePage :: gridState where
  "samplePage =
     initializeWorkspace rt0
       (gridSeedCards sampleWindow (1/100, 0) (1/2, 1/2) (1/4, 3/4) (3/4, 1/4))
       sampleGrid None None"

section \<open>Notions used in the statements\<close>

text \<open>A string tail that ends a run of decimal digits and is no hexadecimal prefix.\<close>

definition stopsDigits :: "string \<Rightarrow> bool" where
  "stopsDigits t \<longleftrightarrow> t \<noteq> [] \<and> (hd t = CHR ''.'' \<or> hd t = CHR ''p'')"


text \<open>The layer an event gives to a card: a press on a card element whose id is in the
  store gives that card the layer it has afterwards, an add that is not cancelled gives the
  new card, the last of the store, its layer. No other event calls \<^verbatim>\<open>bringCardToFront\<close> or
  creates a card.\<close>

definition givenLayer :: "runtime \<Rightarrow> event \<Rightarrow> appState \<Rightarrow> int option" where
  "givenLayer rt ev st =
     (case ev of
        Press p \<Rightarrow>
          if targetIsRemoveButton p \<or> length (document st) \<le> currentTarget p then None
          else map_option (\<lambda>i. zIndex (cards (step rt ev st) ! i))
                 (findIndex (\<lambda>c. card_id c = el_id (document st ! currentTarget p)) (cards st))
      | AddCard inp \<Rightarrow>
          if falsyText (promptTitle inp) \<or> falsyText (promptContent inp) then None
          else Some (zIndex (last (cards (step rt ev st))))
      | _ \<Rightarrow> None)"

text \<open>The layers given to cards along a run of events, in order.\<close>

fun allocated :: "runtime \<Rightarrow> event list \<Rightarrow> appState \<Rightarrow> int list" where
  "allocated rt [] st = []"
| "allocated rt (ev # evs) st =
     (case givenLayer rt ev st of None \<Rightarrow> [] | Some z \<Rightarrow> [z]) @
     allocated rt evs (step rt ev st)"

text \<open>The counter is in the range where adding one is exact: from \<^verbatim>\<open>-2^53\<close> up to, and not
  including, \<^verbatim>\<open>2^53\<close>.\<close>

definition exactRange :: "int \<Rightarrow> bool" where
  "exactRange z \<longleftrightarrow> - 9007199254740992 \<le> z \<and> z < 9007199254740992"

text \<open>Every card added along the run gets an id that no card of the store has at that
  moment.\<close>

fun freshIds :: "runtime \<Rightarrow> event list \<Rightarrow> appState \<Rightarrow> bool" where
  "freshIds rt [] st = True"
| "freshIds rt (ev # evs) st =
     ((case ev of
         AddCard inp \<Rightarrow> ''card-'' @ numToString rt (dateNow inp) \<notin> set (map card_id (cards st))
       | _ \<Rightarrow> True) \<and>
      freshIds rt evs (step rt ev st))"

text \<open>A store with the first seed card only, at \<^verbatim>\<open>{x: 100, y: 100}\<close> with layer 1, and the
  counter at 1.\<close>

definition oneSeedState :: appState where
  "oneSeedState = (initialState None)\<lparr>cards := take 1 seedCards, maxZIndex := 1\<rparr>"

text \<open>The stored item decodes to a value whose \<^verbatim>\<open>cards\<close> property is an array.\<close>

definition decodesToCards :: "runtime \<Rightarrow> string option \<Rightarrow> bool" where
  "decodesToCards rt saved =
     (case saved of
        None \<Rightarrow> False
      | Some s \<Rightarrow>
          (case JSON_parse rt s of
             None \<Rightarrow> False
           | Some v \<Rightarrow> (case getProp ''cards'' v of Some (JArr cs) \<Rightarrow> True | _ \<Rightarrow> False)))"

text \<open>The pointer positions of a gesture, applied in order, in the grid workspace.\<close>

definition moves :: "runtime \<Rightarrow> (real \<times> real) list \<Rightarrow> gridState \<Rightarrow> gridState" where
  "moves rt ps st = foldl (\<lambda>s p. handleMouseMovement rt p s) st ps"

text \<open>
  \<open>pickedUp st h s\<close>: \<open>s\<close> is the state \<open>st\<close> with the card element \<open>h\<close> picked up, as
  \<^verbatim>\<open>startDragging\<close> leaves it and as pointer moves keep it: the store is that of \<open>st\<close>, the
  drag is on \<open>h\<close>, \<open>h\<close> is the last child of the body and has left its cell, and the
  cells are otherwise those of \<open>st\<close>.
\<close>

definition pickedUp :: "gridState \<Rightarrow> nat \<Rightarrow> gridState \<Rightarrow> bool" where
  "pickedUp st h s \<longleftrightarrow>
     cardData s = cardData st \<and> g_isDragging s \<and> g_draggedCard s = Some h \<and>
     map ce_id (elements s) = map ce_id (elements st) \<and>
     map cell_rect (gridCells s) = map cell_rect (gridCells st) \<and>
     map cell_row (gridCells s) = map cell_row (gridCells st) \<and>
     map cell_col (gridCells s) = map cell_col (gridCells st) \<and>
     map cell_children (gridCells s) = map (\<lambda>c. removeAll h (cell_children c)) (gridCells st) \<and>
     bodyChildren s = removeAll h (bodyChildren st) @ [h] \<and>
     body_row s = body_row st \<and> body_col s = body_col st"

subsection \<open>Sample inputs\<close>

definition ready :: appState where
  "ready = createAllCards rt0 (initialState None)"

definition pressCard1 :: pressEvent where
  "pressCard1 =
     \<lparr>targetIsRemoveButton = False, currentTarget = 0, clientX = 110, clientY = 110,
      cardRect_left = 100, cardRect_top = 100\<rparr>"

text \<open>The layered workspace after card-1 has been pressed 10 pixels inside its corner.\<close>

definition dragged1 :: appState where
  "dragged1 = startDrag pressCard1 ready"


definition smallWindow :: window where
  "smallWindow = \<lparr>innerWidth = 700, innerHeight = 600\<rparr>"

text \<open>Two stored items: one written by another variant of the program, under the same
  storage key but with the cards under \<^verbatim>\<open>cardData\<close>, and one that holds a card of layer 10
  and no counter.\<close>

definition variantBlob :: string where
  "variantBlob = sampleStringify (JObj [(''cardData'', JArr [])])"

definition highLayerSaved :: string where
  "highLayerSaved = sampleStringify highLayerBlob"

definition highLayerCard :: card where
  "highLayerCard = \<lparr>card_id = ''card-9'', title = ''T'', content = ''C'',
                    position = (Num 5, Num 6), zIndex = 10\<rparr>"

text \<open>The stored workspace with the counter at \<^verbatim>\<open>2^53\<close>, and presses on its two cards.\<close>

definition limitSaved :: string where
  "limitSaved = sampleStringify limitBlob"

definition limitLoaded :: appState where
  "limitLoaded = projr (initializeApp rt0 (initialState (Some limitSaved)))"

definition pressEl :: "nat \<Rightarrow> pressEvent" where
  "pressEl j =
     \<lparr>targetIsRemoveButton = False, currentTarget = j, clientX = 460, clientY = 160,
      cardRect_left = 450, cardRect_top = 150\<rparr>"


definition addXY :: "real \<Rightarrow> addInput" where
  "addXY now =
     \<lparr>promptTitle = Some ''X'', promptContent = Some ''Y'', dateNow = now,
      random = (1/8, 1/4), win = \<lparr>innerWidth = 1024, innerHeight = 768\<rparr>\<rparr>"

text \<open>The grid page after card-2 has been dragged into the cell of row 0, column 1, then
  with card-1 picked up.\<close>

definition pressGrid :: "nat \<Rightarrow> real \<Rightarrow> real \<Rightarrow> gridPress" where
  "pressGrid h x y =
     \<lparr>g_currentTarget = h, g_clientX = x + 10, g_clientY = y + 10,
      g_rect_left = x, g_rect_top = y\<rparr>"

definition gesture :: "gridPress \<Rightarrow> real \<times> real \<Rightarrow> gridState \<Rightarrow> gridError + gridState" where
  "gesture pr p st =
     (case startDragging rt0 pr st of
        Inl e \<Rightarrow> Inl e
      | Inr s \<Rightarrow> stopDragging p (handleMouseMovement rt0 p s))"

definition stateOf :: "gridError + gridState \<Rightarrow> gridState" where
  "stateOf r = (case r of Inl (TypeError s) \<Rightarrow> s | Inr s \<Rightarrow> s)"

definition card2InCell :: gridState where
  "card2InCell = stateOf (gesture (pressGrid 1 500 350) (450, 150) samplePage)"

definition card1PickedUp :: gridState where
  "card1PickedUp = stateOf (startDragging rt0 (pressGrid 0 10 100) card2InCell)"

text \<open>The same after the pointer has moved to \<open>(-40, 900)\<close>, left of and below the grid.\<close>

definition card1Moved :: gridState where
  "card1Moved = handleMouseMovement rt0 (-40, 900) card1PickedUp"


section \<open>Properties\<close>

subsection \<open>Lists and lookups\<close>

lemma findIndex_Some:
  "findIndex P xs = Some i \<Longrightarrow> i < length xs \<and> P (xs ! i)"
  by (induction xs arbitrary: i) (auto split: if_splits)

lemma findIndex_None: "findIndex P xs = None \<longleftrightarrow> (\<forall>x \<in> set xs. \<not> P x)"
  by (induction xs) auto

lemma saveToStorage_cards [simp]: "cards (saveToStorage rt now st) = cards st"
  and saveToStorage_maxZIndex [simp]: "maxZIndex (saveToStorage rt now st) = maxZIndex st"
  and saveToStorage_document [simp]: "document (saveToStorage rt now st) = document st"
  by (simp_all add: saveToStorage_def Let_def)

lemma createCard_cards [simp]: "cards (createCard rt c st) = cards st"
  and createCard_maxZIndex [simp]: "maxZIndex (createCard rt c st) = maxZIndex st"
  by (simp_all add: createCard_def)

subsection \<open>parseInt on decimal numerals\<close>

lemma digit_cases:
  "d < (10::nat) \<Longrightarrow> d = 0 \<or> d = 1 \<or> d = 2 \<or> d = 3 \<or> d = 4 \<or> d = 5 \<or> d = 6 \<or> d = 7 \<or> d = 8 \<or> d = 9"
  by arith

lemma digitChar_props:
  assumes "d < 10"
  shows "digitOf 10 (digitChar d) = Some d"
    and "\<not> isWhiteSpace (digitChar d)"
    and "digitChar d \<noteq> CHR ''-''" and "digitChar d \<noteq> CHR ''+''"
    and "digitChar d \<noteq> CHR ''x''" and "digitChar d \<noteq> CHR ''X''"
  using digit_cases [OF assms]
  by (auto simp: digitChar_def digitOf_def isWhiteSpace_def)

lemma showDigits_chars: "c \<in> set (showDigits n) \<Longrightarrow> \<exists>d<10. c = digitChar d"
proof (induction n arbitrary: c rule: showDigits.induct)
  case (1 n)
  show ?case
  proof (cases "n < 10")
    case True
    with "1.prems" have "c = digitChar (nat n)" by (simp add: showDigits.simps [of n])
    moreover have "nat n < 10" using True by simp
    ultimately show ?thesis by blast
  next
    case False
    with "1.prems" have "c \<in> set (showDigits (n div 10)) \<or> c = digitChar (nat (n mod 10))"
      by (auto simp: showDigits.simps [of n])
    then show ?thesis
    proof
      assume "c \<in> set (showDigits (n div 10))"
      with "1.IH" False show ?thesis by blast
    next
      assume "c = digitChar (nat (n mod 10))"
      moreover have "nat (n mod 10) < 10" by simp
      ultimately show ?thesis by blast
    qed
  qed
qed

lemma showDigits_nonempty: "showDigits n \<noteq> []"
  by (subst showDigits.simps) simp

lemma takeDigits_digits:
  "(\<And>c. c \<in> set s \<Longrightarrow> \<exists>d<10. c = digitChar d) \<Longrightarrow>
   takeDigits 10 (s @ t) = map (\<lambda>c. the (digitOf 10 c)) s @ takeDigits 10 t"
proof (induction s)
  case Nil
  then show ?case by simp
next
  case (Cons a s)
  from Cons.prems obtain d where d: "d < 10" "a = digitChar d" by auto
  have "takeDigits 10 (s @ t) = map (\<lambda>c. the (digitOf 10 c)) s @ takeDigits 10 t"
    using Cons by simp
  with d show ?case by (simp add: digitChar_props(1))
qed

lemma showDigits_value:
  "0 \<le> n \<Longrightarrow>
   foldl (\<lambda>a d. a * 10 + int d) 0 (map (\<lambda>c. the (digitOf 10 c)) (showDigits n)) = n"
proof (induction n rule: showDigits.induct)
  case (1 n)
  show ?case
  proof (cases "n < 10")
    case True
    then have "nat n < 10" by simp
    with True "1.prems" show ?thesis
      by (simp add: showDigits.simps [of n] digitChar_props(1))
  next
    case False
    have m: "nat (n mod 10) < 10" by simp
    have ih: "foldl (\<lambda>a d. a * 10 + int d) 0
                (map (\<lambda>c. the (digitOf 10 c)) (showDigits (n div 10))) = n div 10"
      using "1.IH" False "1.prems" by simp
    from False ih show ?thesis
      by (simp add: showDigits.simps [of n] digitChar_props(1) [OF m])
  qed
qed

lemma takeDigits_stop: "stopsDigits t \<Longrightarrow> takeDigits 10 t = []"
  by (cases t) (auto simp: stopsDigits_def digitOf_def)

lemma parse_showDigits_core:
  assumes "stopsDigits t" and "0 \<le> n"
  shows "takeDigits 10 (showDigits n @ t) \<noteq> []"
    and "radixValue 10 (takeDigits 10 (showDigits n @ t)) = n"
proof -
  have eq: "takeDigits 10 (showDigits n @ t) = map (\<lambda>c. the (digitOf 10 c)) (showDigits n)"
    using takeDigits_digits [of "showDigits n" t] showDigits_chars [of _ n]
      takeDigits_stop [OF assms(1)]
    by auto
  show "takeDigits 10 (showDigits n @ t) \<noteq> []" by (simp add: eq showDigits_nonempty)
  show "radixValue 10 (takeDigits 10 (showDigits n @ t)) = n"
    by (simp add: eq radixValue_def showDigits_value [OF assms(2)])
qed

lemma showDigits_head:
  obtains d cs where "showDigits n = digitChar d # cs" "d < 10"
proof -
  obtain c cs where c: "showDigits n = c # cs"
    using showDigits_nonempty [of n] by (cases "showDigits n") auto
  then have "c \<in> set (showDigits n)" by simp
  then obtain d where "d < 10" "c = digitChar d" using showDigits_chars by blast
  with c that show thesis by blast
qed

lemma showDigits_no_hex:
  assumes "stopsDigits t"
  shows "take 2 (showDigits n @ t) \<noteq> ''0x''" and "take 2 (showDigits n @ t) \<noteq> ''0X''"
proof -
  obtain d cs where h: "showDigits n = digitChar d # cs" "d < 10" by (rule showDigits_head)
  have second: "\<exists>e. take 1 (cs @ t) = [e] \<and> e \<noteq> CHR ''x'' \<and> e \<noteq> CHR ''X''"
  proof (cases cs)
    case Nil
    with assms show ?thesis by (cases t) (auto simp: stopsDigits_def)
  next
    case (Cons e es)
    then have "e \<in> set (showDigits n)" using h by simp
    then obtain k where "k < 10" "e = digitChar k" using showDigits_chars by blast
    with Cons show ?thesis by (simp add: digitChar_props)
  qed
  have t2: "take 2 (showDigits n @ t) = digitChar d # take 1 (cs @ t)"
    using h by (simp add: numeral_2_eq_2)
  from second t2 show "take 2 (showDigits n @ t) \<noteq> ''0x''" by auto
  from second t2 show "take 2 (showDigits n @ t) \<noteq> ''0X''" by auto
qed

lemma parseInt_unsigned:
  "dropWhile isWhiteSpace S = S \<Longrightarrow> take 1 S \<noteq> ''-'' \<Longrightarrow> take 1 S \<noteq> ''+'' \<Longrightarrow>
   take 2 S \<noteq> ''0x'' \<Longrightarrow> take 2 S \<noteq> ''0X'' \<Longrightarrow>
   parseInt S = (if takeDigits 10 S = [] then NaN
                 else Num (of_int (radixValue 10 (takeDigits 10 S))))"
  by (simp add: parseInt_def Let_def)

lemma parseInt_negative:
  "take 2 S \<noteq> ''0x'' \<Longrightarrow> take 2 S \<noteq> ''0X'' \<Longrightarrow>
   parseInt (CHR ''-'' # S) = (if takeDigits 10 S = [] then NaN
                               else Num (- of_int (radixValue 10 (takeDigits 10 S))))"
  by (simp add: parseInt_def Let_def isWhiteSpace_def)

lemma parseInt_showDigits:
  assumes "stopsDigits t" and "0 \<le> n"
  shows "parseInt (showDigits n @ t) = Num (of_int n)"
    and "parseInt (CHR ''-'' # showDigits n @ t) = Num (- of_int n)"
proof -
  obtain d cs where h: "showDigits n = digitChar d # cs" "d < 10" by (rule showDigits_head)
  have dw: "dropWhile isWhiteSpace (showDigits n @ t) = showDigits n @ t"
    using h by (simp add: digitChar_props)
  have t1: "take 1 (showDigits n @ t) \<noteq> ''-''" "take 1 (showDigits n @ t) \<noteq> ''+''"
    using h by (simp_all add: digitChar_props)
  show "parseInt (showDigits n @ t) = Num (of_int n)"
    using parseInt_unsigned [OF dw t1 showDigits_no_hex [OF assms(1), of n]]
      parse_showDigits_core [OF assms]
    by simp
  show "parseInt (CHR ''-'' # showDigits n @ t) = Num (- of_int n)"
    using parseInt_negative [OF showDigits_no_hex [OF assms(1), of n]]
      parse_showDigits_core [OF assms]
    by simp
qed

lemma parseInt_decimalNotation:
  assumes "decimalNotation x s"
  shows "parseInt (s @ ''px'') = Num (of_int (truncToZero x))"
proof -
  define p where "p = (if x < 0 then ''-'' else []) @ showDigits \<lfloor>\<bar>x\<bar>\<rfloor>"
  define rest where "rest = drop (length p) s"
  from assms have tk: "take (length p) s = p" and r: "rest = [] \<or> hd rest = CHR ''.''"
    by (simp_all add: decimalNotation_def Let_def p_def rest_def)
  have s: "s = p @ rest" using tk rest_def by (metis append_take_drop_id)
  have st: "stopsDigits (rest @ ''px'')" using r by (cases rest) (auto simp: stopsDigits_def)
  have nn: "0 \<le> \<lfloor>\<bar>x\<bar>\<rfloor>" by simp
  show ?thesis
  proof (cases "x < 0")
    case True
    then have "s @ ''px'' = CHR ''-'' # showDigits \<lfloor>\<bar>x\<bar>\<rfloor> @ (rest @ ''px'')"
      by (simp add: s p_def)
    moreover have "truncToZero x = - \<lfloor>\<bar>x\<bar>\<rfloor>" using True by (simp add: truncToZero_def)
    ultimately show ?thesis using parseInt_showDigits(2) [OF st nn] by simp
  next
    case False
    then have "s @ ''px'' = showDigits \<lfloor>\<bar>x\<bar>\<rfloor> @ (rest @ ''px'')"
      by (simp add: s p_def)
    moreover have "truncToZero x = \<lfloor>\<bar>x\<bar>\<rfloor>" using False by (simp add: truncToZero_def)
    ultimately show ?thesis using parseInt_showDigits(1) [OF st nn] by simp
  qed
qed

lemma decimalString_notation: "decimalNotation x (decimalString x)"
  by (simp add: decimalNotation_def decimalString_def Let_def)


subsection \<open>The drag state machine when idle\<close>

text \<open>
  C9. A move or release event that arrives while no drag is in progress changes nothing:
  the whole state after \<^verbatim>\<open>handleDrag\<close> and after \<^verbatim>\<open>stopDrag\<close> is the state before, so no
  card's position or layer, no field of the drag state, not the stored item and not the
  number of \<^verbatim>\<open>setItem\<close> calls change. The same holds for \<^verbatim>\<open>handleMouseMovement\<close> and
  \<^verbatim>\<open>stopDragging\<close> of the grid workspace.
\<close>

theorem idle_move_release_noop:
  "(\<not> isDragging st \<longrightarrow> handleDrag rt ev st = st \<and> stopDrag rt now st = st) \<and>
   (\<not> g_isDragging gs \<longrightarrow> handleMouseMovement rt ev gs = gs \<and> stopDragging ev gs = Inr gs)"
  by (simp add: handleDrag_def stopDrag_def handleMouseMovement_def stopDragging_def
      split: option.splits)

theorem idle_move_release_noop_witness:
  "\<not> isDragging ready \<and> handleDrag rt0 (5, 7) ready = ready \<and>
   stopDrag rt0 1700000000000 ready = ready \<and>
   \<not> g_isDragging card2InCell \<and> handleMouseMovement rt0 (5, 7) card2InCell = card2InCell \<and>
   stopDragging (5, 7) card2InCell = Inr card2InCell"
proof -
  have idle: "\<not> isDragging ready" "\<not> g_isDragging card2InCell" by code_simp+
  from idle_move_release_noop [of ready rt0 "(5, 7)" 1700000000000 card2InCell] idle
  show ?thesis by blast
qed

subsection \<open>Layers\<close>

lemma ulp_below: "a < 9007199254740992 \<Longrightarrow> ulp a = 1"
  by (simp add: ulp.simps)

lemma ulp_limit: "ulp 9007199254740992 = 2"
  by (simp add: ulp.simps [of 9007199254740992] ulp_below)

lemma roundToDouble_exact:
  assumes "\<bar>n\<bar> \<le> 9007199254740992"
  shows "roundToDouble n = n"
proof (cases "\<bar>n\<bar> = 9007199254740992")
  case True
  then show ?thesis by (auto simp: roundToDouble_def Let_def ulp_limit abs_if split: if_splits)
next
  case False
  with assms have "\<bar>n\<bar> < 9007199254740992" by simp
  then have "ulp \<bar>n\<bar> = 1" by (rule ulp_below)
  then show ?thesis by (simp add: roundToDouble_def Let_def mult_sgn_abs)
qed

lemma increment_exact:
  assumes "exactRange z"
  shows "increment z = z + 1"
proof -
  from assms have "\<bar>z + 1\<bar> \<le> 9007199254740992" by (auto simp: exactRange_def)
  then show ?thesis by (simp add: increment_def roundToDouble_exact)
qed

lemma bringCardToFront_maxZIndex:
  "maxZIndex (bringCardToFront cid st) = maxZIndex st \<or>
   maxZIndex (bringCardToFront cid st) = increment (maxZIndex st)"
  by (simp add: bringCardToFront_def Let_def split: option.splits)

lemma step_maxZIndex:
  "maxZIndex (step rt ev st) = maxZIndex st \<or>
   maxZIndex (step rt ev st) = increment (maxZIndex st)"
proof (cases ev)
  case (Press p)
  then show ?thesis
    using bringCardToFront_maxZIndex [of "el_id (document st ! currentTarget p)" st]
    by (auto simp: startDrag_def Let_def)
next
  case (Move m)
  then show ?thesis by (simp add: handleDrag_def Let_def split: option.splits)
next
  case (Release n)
  then show ?thesis
    by (simp add: stopDrag_def updateCardPosition_def Let_def split: option.splits)
next
  case (AddCard inp)
  then show ?thesis by (simp add: showAddCardDialog_def Let_def)
next
  case (RemoveCard n c)
  then show ?thesis by (simp add: removeCard_def Let_def)
next
  case (RemovalTimer j)
  then show ?thesis by (simp add: removalTimer_def)
next
  case (Resize w n)
  then show ?thesis by (simp add: handleWindowResize_def Let_def)
qed

lemma bringCardToFront_found:
  assumes "findIndex (\<lambda>c. card_id c = cid) (cards st) = Some i"
  shows "maxZIndex (bringCardToFront cid st) = increment (maxZIndex st)"
    and "cards (bringCardToFront cid st) =
           (cards st)[i := (cards st ! i)\<lparr>zIndex := increment (maxZIndex st)\<rparr>]"
  using assms by (simp_all add: bringCardToFront_def Let_def split: option.splits)

lemma showAddCardDialog_added:
  assumes "\<not> falsyText (promptTitle inp)" and "\<not> falsyText (promptContent inp)"
  shows "maxZIndex (showAddCardDialog rt inp st) = increment (maxZIndex st)"
    and "cards (showAddCardDialog rt inp st) =
           cards st @
           [\<lparr>card_id = ''card-'' @ numToString rt (dateNow inp),
             title = the (promptTitle inp), content = the (promptContent inp),
             position = getRandomPosition (win inp) (random inp),
             zIndex = increment (maxZIndex st)\<rparr>]"
  using assms by (simp_all add: showAddCardDialog_def Let_def)

lemma givenLayer_Some:
  assumes "givenLayer rt ev st = Some z"
  shows "z = increment (maxZIndex st)" and "maxZIndex (step rt ev st) = z"
proof -
  have "z = increment (maxZIndex st) \<and> maxZIndex (step rt ev st) = z"
  proof (cases ev)
    case (Press p)
    with assms obtain i where
      g: "\<not> targetIsRemoveButton p" "\<not> length (document st) \<le> currentTarget p"
      and f: "findIndex (\<lambda>c. card_id c = el_id (document st ! currentTarget p)) (cards st) = Some i"
      and z: "z = zIndex (cards (startDrag p st) ! i)"
      by (auto simp: givenLayer_def split: if_splits)
    from g have c: "cards (startDrag p st) =
        cards (bringCardToFront (el_id (document st ! currentTarget p)) st)"
      and m: "maxZIndex (startDrag p st) =
        maxZIndex (bringCardToFront (el_id (document st ! currentTarget p)) st)"
      by (simp_all add: startDrag_def Let_def)
    from findIndex_Some [OF f] have "i < length (cards st)" by simp
    with z c m bringCardToFront_found [OF f] Press show ?thesis by simp
  next
    case (AddCard inp)
    with assms have t: "\<not> falsyText (promptTitle inp)" "\<not> falsyText (promptContent inp)"
      and z: "z = zIndex (last (cards (showAddCardDialog rt inp st)))"
      by (auto simp: givenLayer_def split: if_splits)
    with showAddCardDialog_added [OF t, of rt st] AddCard show ?thesis by simp
  qed (use assms in \<open>simp_all add: givenLayer_def\<close>)
  then show "z = increment (maxZIndex st)" and "maxZIndex (step rt ev st) = z" by simp_all
qed

lemma allocated_above:
  assumes "- 9007199254740992 \<le> maxZIndex st"
    and "maxZIndex st + int (length evs) \<le> 9007199254740992"
    and "z \<in> set (allocated rt evs st)"
  shows "maxZIndex st < z"
  using assms
proof (induction evs arbitrary: st)
  case Nil
  then show ?case by simp
next
  case (Cons ev evs)
  from Cons.prems(1,2) have ex: "exactRange (maxZIndex st)" by (simp add: exactRange_def)
  from step_maxZIndex [of rt ev st] increment_exact [OF ex]
  have s: "maxZIndex (step rt ev st) = maxZIndex st \<or>
           maxZIndex (step rt ev st) = maxZIndex st + 1" by simp
  with Cons.prems(1,2) have b: "- 9007199254740992 \<le> maxZIndex (step rt ev st)"
    "maxZIndex (step rt ev st) + int (length evs) \<le> 9007199254740992" by auto
  from Cons.prems(3) consider "givenLayer rt ev st = Some z"
    | "z \<in> set (allocated rt evs (step rt ev st))"
    by (auto split: option.splits)
  then show ?case
  proof cases
    case 1
    from givenLayer_Some(1) [OF 1] increment_exact [OF ex] show ?thesis by simp
  next
    case 2
    from Cons.IH [OF b 2] s show ?thesis by auto
  qed
qed

lemma allocated_sorted:
  assumes "- 9007199254740992 \<le> maxZIndex st"
    and "maxZIndex st + int (length evs) \<le> 9007199254740992"
  shows "sorted_wrt (<) (allocated rt evs st)"
  using assms
proof (induction evs arbitrary: st)
  case Nil
  then show ?case by simp
next
  case (Cons ev evs)
  from Cons.prems have ex: "exactRange (maxZIndex st)" by (simp add: exactRange_def)
  from step_maxZIndex [of rt ev st] increment_exact [OF ex]
  have s: "maxZIndex (step rt ev st) = maxZIndex st \<or>
           maxZIndex (step rt ev st) = maxZIndex st + 1" by simp
  with Cons.prems have b: "- 9007199254740992 \<le> maxZIndex (step rt ev st)"
    "maxZIndex (step rt ev st) + int (length evs) \<le> 9007199254740992" by auto
  note tl = Cons.IH [OF b]
  show ?case
  proof (cases "givenLayer rt ev st")
    case None
    with tl show ?thesis by simp
  next
    case (Some z)
    from givenLayer_Some(2) [OF Some] allocated_above [OF b]
    have "\<forall>y \<in> set (allocated rt evs (step rt ev st)). z < y" by simp
    with Some tl show ?thesis by simp
  qed
qed

lemma oneSeed_scenario:
  assumes "\<not> falsyText (promptTitle inp)" and "\<not> falsyText (promptContent inp)"
  shows "map zIndex (cards (showAddCardDialog rt inp oneSeedState)) = [1, 2]"
    and "map zIndex (cards (bringCardToFront ''card-1'' (showAddCardDialog rt inp oneSeedState)))
           = [3, 2]"
proof -
  have i: "increment 1 = 2" "increment 2 = 3"
    using increment_exact [of 1] increment_exact [of 2] by (simp_all add: exactRange_def)
  show "map zIndex (cards (showAddCardDialog rt inp oneSeedState)) = [1, 2]"
    and "map zIndex (cards (bringCardToFront ''card-1'' (showAddCardDialog rt inp oneSeedState)))
           = [3, 2]"
    using assms i
    by (simp_all add: showAddCardDialog_def oneSeedState_def initialState_def seedCards_def
        bringCardToFront_def Let_def split: option.splits)
qed

text \<open>
  C4 (as amended). As long as the counter stays in the range where a double counts exactly,
  at least \<^verbatim>\<open>-2^53\<close> at the start and at most \<^verbatim>\<open>2^53\<close> after one step for each event, the layers
  given to cards along any run of events are strictly increasing, and all above the
  counter's starting value. For every store, \<^verbatim>\<open>bringCardToFront\<close> on a card of the store
  sets the counter and that card's layer to the incremented counter and changes no other
  card, and an add that is not cancelled sets the counter to the incremented counter and
  appends one card with that layer, changing no other card. The incremented counter is the
  counter plus one in that range. In the store with one seed card of layer 1, adding a card
  gives it layer 2, and bringing the seed card to the front then gives the seed layer 3
  while the new card keeps layer 2.
\<close>

theorem layers_increase_in_exact_range:
  "(- 9007199254740992 \<le> maxZIndex st \<and>
    maxZIndex st + int (length evs) \<le> 9007199254740992 \<longrightarrow>
      sorted_wrt (<) (allocated rt evs st) \<and>
      (\<forall>z \<in> set (allocated rt evs st). maxZIndex st < z)) \<and>
   (\<forall>i. findIndex (\<lambda>c. card_id c = cid) (cards st) = Some i \<longrightarrow>
        maxZIndex (bringCardToFront cid st) = increment (maxZIndex st) \<and>
        cards (bringCardToFront cid st) =
          (cards st)[i := (cards st ! i)\<lparr>zIndex := increment (maxZIndex st)\<rparr>]) \<and>
   (\<not> falsyText (promptTitle inp) \<and> \<not> falsyText (promptContent inp) \<longrightarrow>
        maxZIndex (showAddCardDialog rt inp st) = increment (maxZIndex st) \<and>
        cards (showAddCardDialog rt inp st) =
          cards st @
          [\<lparr>card_id = ''card-'' @ numToString rt (dateNow inp),
            title = the (promptTitle inp), content = the (promptContent inp),
            position = getRandomPosition (win inp) (random inp),
            zIndex = increment (maxZIndex st)\<rparr>] \<and>
        map zIndex (cards (showAddCardDialog rt inp oneSeedState)) = [1, 2] \<and>
        map zIndex (cards (bringCardToFront ''card-1'' (showAddCardDialog rt inp oneSeedState)))
          = [3, 2]) \<and>
   (exactRange z \<longrightarrow> increment z = z + 1)"
  using allocated_sorted [of st evs rt] allocated_above [of st evs _ rt]
    bringCardToFront_found [of cid st] showAddCardDialog_added [of inp rt st]
    oneSeed_scenario [of inp rt] increment_exact [of z]
  by blast

text \<open>
  C4 as stated fails when the counter has reached \<^verbatim>\<open>2^53\<close>, where adding one to a double
  gives the same double. \<^verbatim>\<open>loadFromStorage\<close> adopts the stored counter as it is: with the
  stored workspace of two cards and \<^verbatim>\<open>maxZIndex: 9007199254740992\<close>, a press on card-1 and
  then a press on card-2 give both cards the layer \<^verbatim>\<open>9007199254740992\<close>.
\<close>

theorem layers_repeat_at_limit_counterexample:
  "\<not> isl (initializeApp rt0 (initialState (Some limitSaved))) \<and>
   map card_id (cards limitLoaded) = [''card-1'', ''card-2''] \<and>
   maxZIndex limitLoaded = 9007199254740992 \<and>
   allocated rt0 [Press (pressEl 0), Release 1700000000000, Press (pressEl 1)] limitLoaded
     = [9007199254740992, 9007199254740992] \<and>
   map zIndex (cards (run rt0 [Press (pressEl 0), Release 1700000000000, Press (pressEl 1)]
                        limitLoaded))
     = [9007199254740992, 9007199254740992]"
  by code_simp

theorem layers_increase_in_exact_range_witness:
  "- 9007199254740992 \<le> maxZIndex ready \<and>
   maxZIndex ready +
     int (length [Press pressCard1, AddCard (addXY 1700000000000), Move (3, 4), Press pressCard1])
     \<le> 9007199254740992 \<and>
   allocated rt0 [Press pressCard1, AddCard (addXY 1700000000000), Move (3, 4), Press pressCard1]
     ready = [5, 6, 7] \<and>
   sorted_wrt (<) [5, 6, 7 :: int] \<and>
   findIndex (\<lambda>c. card_id c = ''card-2'') (cards ready) = Some 1 \<and>
   map zIndex (cards (bringCardToFront ''card-2'' ready)) = [1, 5, 3, 4] \<and>
   \<not> falsyText (promptTitle (addXY 1700000000000)) \<and>
   \<not> falsyText (promptContent (addXY 1700000000000)) \<and>
   map zIndex (cards (showAddCardDialog rt0 (addXY 1700000000000) ready)) = [1, 2, 3, 4, 5] \<and>
   map zIndex (cards (bringCardToFront ''card-1''
     (showAddCardDialog rt0 (addXY 1700000000000) oneSeedState))) = [3, 2] \<and>
   exactRange 4 \<and> increment 4 = 5"
proof -
  let ?evs = "[Press pressCard1, AddCard (addXY 1700000000000), Move (3, 4), Press pressCard1]"
  have m: "maxZIndex ready = 4" by code_simp
  have run: "allocated rt0 ?evs ready = [5, 6, 7]" by code_simp
  have found: "findIndex (\<lambda>c. card_id c = ''card-2'') (cards ready) = Some 1" by code_simp
  have z: "map zIndex (cards ready) = [1, 2, 3, 4]" by code_simp
  have ex: "exactRange 4" by (simp add: exactRange_def)
  have texts: "\<not> falsyText (promptTitle (addXY 1700000000000))"
    "\<not> falsyText (promptContent (addXY 1700000000000))"
    by code_simp+
  note l = layers_increase_in_exact_range
    [of ready ?evs rt0 "''card-2''" "addXY 1700000000000" 4]
  from l ex have i: "increment 4 = 5" by simp
  from l found have "cards (bringCardToFront ''card-2'' ready) =
      (cards ready)[1 := (cards ready ! 1)\<lparr>zIndex := increment (maxZIndex ready)\<rparr>]" by blast
  then have front: "map zIndex (cards (bringCardToFront ''card-2'' ready)) = [1, 5, 3, 4]"
    using z m i by (simp add: map_update)
  from l texts have "cards (showAddCardDialog rt0 (addXY 1700000000000) ready) =
      cards ready @
      [\<lparr>card_id = ''card-'' @ numToString rt0 (dateNow (addXY 1700000000000)),
        title = the (promptTitle (addXY 1700000000000)),
        content = the (promptContent (addXY 1700000000000)),
        position = getRandomPosition (win (addXY 1700000000000)) (random (addXY 1700000000000)),
        zIndex = increment (maxZIndex ready)\<rparr>]" by blast
  then have added: "map zIndex (cards (showAddCardDialog rt0 (addXY 1700000000000) ready))
      = [1, 2, 3, 4, 5]"
    using z m i by simp
  from l texts have scen: "map zIndex (cards (bringCardToFront ''card-1''
     (showAddCardDialog rt0 (addXY 1700000000000) oneSeedState))) = [3, 2]" by blast
  from m run found front texts added scen ex i show ?thesis by simp
qed

subsection \<open>Card ids\<close>

lemma map_update_same:
  assumes "f (g (xs ! i)) = f (xs ! i)"
  shows "map f (xs[i := g (xs ! i)]) = map f xs"
proof (cases "i < length xs")
  case True
  with assms show ?thesis by (simp add: map_update list_update_same_conv)
next
  case False
  then show ?thesis by (simp add: list_update_beyond)
qed

lemma ids_bringCardToFront [simp]:
  "map card_id (cards (bringCardToFront cid st)) = map card_id (cards st)"
  by (simp add: bringCardToFront_def Let_def map_update_same split: option.splits)

lemma ids_updateCardPosition [simp]:
  "map card_id (cards (updateCardPosition h st)) = map card_id (cards st)"
  by (simp add: updateCardPosition_def Let_def map_update_same split: option.splits)

lemma ids_resize [simp]:
  "map card_id (cards (handleWindowResize rt w now st)) = map card_id (cards st)"
  by (simp add: handleWindowResize_def Let_def resizeCard_def comp_def)

lemma distinct_remove_nth: "distinct xs \<Longrightarrow> distinct (take i xs @ drop (Suc i) xs)"
proof (induction xs arbitrary: i)
  case Nil
  then show ?case by simp
next
  case (Cons x xs)
  show ?case
  proof (cases i)
    case 0
    with Cons.prems show ?thesis by simp
  next
    case (Suc k)
    with Cons show ?thesis
      by (auto dest: in_set_takeD in_set_dropD)
  qed
qed

lemma ids_removeCard:
  "distinct (map card_id (cards st)) \<Longrightarrow>
   distinct (map card_id (cards (removeCard rt now cid st)))"
  using distinct_remove_nth [of "map card_id (cards st)"]
  by (simp add: removeCard_def Let_def take_map drop_map split: option.splits)

lemma step_distinct:
  assumes "distinct (map card_id (cards st))" and "freshIds rt [ev] st"
  shows "distinct (map card_id (cards (step rt ev st)))"
proof (cases ev)
  case (Press p)
  with assms show ?thesis by (simp add: startDrag_def Let_def)
next
  case (Move m)
  with assms show ?thesis by (simp add: handleDrag_def Let_def split: option.splits)
next
  case (Release n)
  with assms show ?thesis by (simp add: stopDrag_def split: option.splits)
next
  case (AddCard inp)
  with assms show ?thesis by (simp add: showAddCardDialog_def Let_def)
next
  case (RemoveCard n c)
  with assms show ?thesis by (simp add: ids_removeCard)
next
  case (RemovalTimer j)
  with assms show ?thesis by (simp add: removalTimer_def)
next
  case (Resize w n)
  with assms show ?thesis by simp
qed

lemma run_distinct:
  "distinct (map card_id (cards st)) \<Longrightarrow> freshIds rt evs st \<Longrightarrow>
   distinct (map card_id (cards (run rt evs st)))"
proof (induction evs arbitrary: st)
  case Nil
  then show ?case by (simp add: run_def)
next
  case (Cons ev evs)
  from Cons.prems have "distinct (map card_id (cards (step rt ev st)))"
    using step_distinct [of st rt ev] by simp
  moreover from Cons.prems have "freshIds rt evs (step rt ev st)" by simp
  ultimately have "distinct (map card_id (cards (run rt evs (step rt ev st))))"
    by (rule Cons.IH)
  then show ?case by (simp add: run_def)
qed

lemma freshIds_take: "freshIds rt evs st \<Longrightarrow> freshIds rt (take n evs) st"
proof (induction evs arbitrary: st n)
  case Nil
  then show ?case by simp
next
  case (Cons ev evs)
  then show ?case by (cases n) auto
qed

text \<open>
  C3 (as amended). Removing a card never breaks the distinctness of the ids in the store,
  and neither does any other event, provided every card that is added gets an id,
  \<^verbatim>\<open>"card-" + Date.now()\<close>, that no card of the store has at that moment. The program does
  not check this. Then the ids are pairwise distinct after every prefix of the run.
\<close>

theorem ids_distinct_when_fresh:
  "distinct (map card_id (cards st)) \<Longrightarrow> freshIds rt evs st \<Longrightarrow>
   distinct (map card_id (cards (run rt (take n evs) st)))"
  using run_distinct freshIds_take by blast

text \<open>
  C3 as stated fails: two cards added at the same clock reading get the same id.
\<close>

theorem duplicate_id_counterexample:
  "\<not> distinct (map card_id (cards
        (run rt0 [AddCard (addXY 1700000000000), AddCard (addXY 1700000000000)] ready)))"
  by code_simp

theorem ids_distinct_when_fresh_witness:
  "distinct (map card_id (cards ready)) \<and>
   freshIds rt0 [AddCard (addXY 1700000000000), RemoveCard 1700000000001 ''card-2'',
                 AddCard (addXY 1700000000002)] ready \<and>
   map card_id (cards (run rt0 (take 3 [AddCard (addXY 1700000000000),
       RemoveCard 1700000000001 ''card-2'', AddCard (addXY 1700000000002)]) ready))
     = [''card-1'', ''card-3'', ''card-4'', ''card-1700000000000'', ''card-1700000000002'']"
proof -
  let ?evs = "[AddCard (addXY 1700000000000), RemoveCard 1700000000001 ''card-2'',
               AddCard (addXY 1700000000002)]"
  have d: "distinct (map card_id (cards ready))" by code_simp
  have f: "freshIds rt0 ?evs ready" by code_simp
  have v: "map card_id (cards (run rt0 (take 3 ?evs) ready))
     = [''card-1'', ''card-3'', ''card-4'', ''card-1700000000000'', ''card-1700000000002'']"
    by code_simp
  from ids_distinct_when_fresh [OF d f, of 3] d f v show ?thesis by simp
qed


subsection \<open>Drag release\<close>

lemma stopDrag_position:
  assumes "isDragging st" and "draggedCard st = Some h" and "h < length (document st)"
    and "findIndex (\<lambda>data. card_id data = el_id (document st ! h)) (cards st) = Some i"
  shows "cards (stopDrag rt now st) =
           (cards st)[i := (cards st ! i)\<lparr>position :=
              (parseInt (style_left (document st ! h)), parseInt (style_top (document st ! h)))\<rparr>]"
  using assms by (simp add: stopDrag_def updateCardPosition_def Let_def)

lemma stopDrag_position_nth:
  assumes "isDragging st" and "draggedCard st = Some h" and "h < length (document st)"
    and "findIndex (\<lambda>data. card_id data = el_id (document st ! h)) (cards st) = Some i"
  shows "position (cards (stopDrag rt now st) ! i) =
           (parseInt (style_left (document st ! h)), parseInt (style_top (document st ! h)))"
  using stopDrag_position [OF assms] findIndex_Some [OF assms(4)] by simp

lemma handleDrag_dragging:
  assumes "isDragging st" and "draggedCard st = Some h" and "h < length (document st)"
  shows "isDragging (handleDrag rt p st)" and "draggedCard (handleDrag rt p st) = Some h"
    and "length (document (handleDrag rt p st)) = length (document st)"
    and "cards (handleDrag rt p st) = cards st"
    and "el_id (document (handleDrag rt p st) ! h) = el_id (document st ! h)"
    and "style_left (document (handleDrag rt p st) ! h) = px rt (Num (fst p - fst (mouseOffset st)))"
    and "style_top (document (handleDrag rt p st) ! h) = px rt (Num (snd p - snd (mouseOffset st)))"
  using assms by (simp_all add: handleDrag_def Let_def)

lemma move_release_position:
  assumes "isDragging st" and "draggedCard st = Some h" and "h < length (document st)"
    and "findIndex (\<lambda>data. card_id data = el_id (document st ! h)) (cards st) = Some i"
  shows "position (cards (stopDrag rt now (handleDrag rt p st)) ! i) =
           (parseInt (px rt (Num (fst p - fst (mouseOffset st)))),
            parseInt (px rt (Num (snd p - snd (mouseOffset st)))))"
proof -
  note h = handleDrag_dragging [OF assms(1-3), of rt p]
  have f: "findIndex (\<lambda>data. card_id data = el_id (document (handleDrag rt p st) ! h))
             (cards (handleDrag rt p st)) = Some i"
    using assms(4) h(4,5) by simp
  have l: "h < length (document (handleDrag rt p st))" using assms(3) h(3) by simp
  show ?thesis
    using stopDrag_position_nth [OF h(1) h(2) l f, of rt now] h(6,7) by simp
qed

lemma parseInt_px_decimal:
  "decimalNotation x (numToString rt x) \<Longrightarrow> parseInt (px rt (Num x)) = Num (of_int (truncToZero x))"
  by (simp add: px_def toStr_def parseInt_decimalNotation)

subsection \<open>What a release writes and what is saved\<close>









subsection \<open>Window resize\<close>

lemma resizeCard_position:
  "position (resizeCard w c) =
     (Math_min (fst (position c)) (Num (innerWidth w - 300)),
      Math_min (snd (position c)) (Num (innerHeight w - 400)))"
proof -
  have m: "(if js_gt x (Num b) then Num b else x) = Math_min x (Num b)" for x b
    by (cases x) auto
  show ?thesis by (simp add: resizeCard_def Let_def m)
qed

lemma resizeCard_rest: "(resizeCard w c)\<lparr>position := position c\<rparr> = c"
  by (simp add: resizeCard_def Let_def)

lemma handleWindowResize_cards:
  "cards (handleWindowResize rt w now st) = map (resizeCard w) (cards st)"
  by (simp add: handleWindowResize_def Let_def)

lemma handleWindowResize_calls:
  "setItemCalls (handleWindowResize rt w now st) = Suc (setItemCalls st)"
  by (simp add: handleWindowResize_def saveToStorage_def Let_def)

lemma handleWindowResize_saved:
  "\<not> setItem_throws rt (JSON_stringify rt (workspaceData now (handleWindowResize rt w now st)))
   \<Longrightarrow> localStorage (handleWindowResize rt w now st) =
         Some (JSON_stringify rt (workspaceData now (handleWindowResize rt w now st)))"
  by (simp add: handleWindowResize_def saveToStorage_def workspaceData_def Let_def)

lemma modifyElement_cardData [simp]: "cardData (modifyElement h f st) = cardData st"
  by (simp add: modifyElement_def)

lemma restyleFree_cardData [simp]: "cardData (restyleFree rt st cd) = cardData st"
  by (simp add: restyleFree_def split: option.splits)

lemma foldl_restyleFree_cardData [simp]:
  "cardData (foldl (restyleFree rt) st cs) = cardData st"
  by (induction cs arbitrary: st) simp_all

lemma handleWindowResize_grid_cardData:
  "cardData (handleWindowResize_grid rt w st) = map (resizeGridCard w) (cardData st)"
  by (simp add: handleWindowResize_grid_def Let_def)

text \<open>
  C6 (as amended). On a resize every card of the layered workspace gets the position
  \<^verbatim>\<open>min(x, innerWidth - 300)\<close>, \<^verbatim>\<open>min(y, innerHeight - 400)\<close> and nothing else of it changes;
  the result is saved at once (one \<^verbatim>\<open>setItem\<close> call, which stores the serialised store
  unless it throws). In the grid workspace every card with a free position gets
  \<^verbatim>\<open>min(x, innerWidth - 300)\<close>, \<^verbatim>\<open>min(y, innerHeight - 200)\<close>, a card without one (a card in a
  grid cell) is unchanged, and nothing is saved: that variant has no persistence.
  Coordinates are capped from above only; no lower bound is applied.
\<close>

theorem resize_caps_from_above_only:
  "cards (handleWindowResize rt w now st) = map (resizeCard w) (cards st) \<and>
   position (resizeCard w c) =
     (Math_min (fst (position c)) (Num (innerWidth w - 300)),
      Math_min (snd (position c)) (Num (innerHeight w - 400))) \<and>
   (resizeCard w c)\<lparr>position := position c\<rparr> = c \<and>
   setItemCalls (handleWindowResize rt w now st) = Suc (setItemCalls st) \<and>
   (\<not> setItem_throws rt (JSON_stringify rt (workspaceData now (handleWindowResize rt w now st)))
      \<longrightarrow> localStorage (handleWindowResize rt w now st) =
            Some (JSON_stringify rt (workspaceData now (handleWindowResize rt w now st)))) \<and>
   cardData (handleWindowResize_grid rt w gst) = map (resizeGridCard w) (cardData gst) \<and>
   (g_freePosition cd = None \<longrightarrow> resizeGridCard w cd = cd) \<and>
   (\<forall>x y. g_freePosition cd = Some (x, y) \<longrightarrow>
      resizeGridCard w cd =
        cd\<lparr>g_freePosition := Some (Math_min x (Num (innerWidth w - 300)),
                                  Math_min y (Num (innerHeight w - 200)))\<rparr>)"
  by (intro conjI impI allI)
    (simp_all add: handleWindowResize_cards resizeCard_position resizeCard_rest
      handleWindowResize_calls handleWindowResize_saved handleWindowResize_grid_cardData
      resizeGridCard_def)

text \<open>
  C6 as stated fails: a card resting at \<^verbatim>\<open>x = -50\<close> is still there after a resize to a
  viewport of 1024 by 768, outside \<open>[0, 1024 - 300]\<close>.
\<close>

theorem resize_no_lower_bound_counterexample:
  "position (cards (run rt0 [Press pressCard1, Move (-40, 20), Release 1700000000000,
                             Resize \<lparr>innerWidth = 1024, innerHeight = 768\<rparr> 1700000000001] ready) ! 0)
     = (Num (- 50), Num 10)"
  by code_simp

theorem resize_caps_from_above_only_witness:
  "\<not> setItem_throws rt0
       (JSON_stringify rt0 (workspaceData 1700000000000
          (handleWindowResize rt0 smallWindow 1700000000000 ready))) \<and>
   map position (cards (handleWindowResize rt0 smallWindow 1700000000000 ready)) =
     [(Num 100, Num 100), (Num 400, Num 150), (Num 200, Num 200), (Num 400, Num 200)] \<and>
   setItemCalls (handleWindowResize rt0 smallWindow 1700000000000 ready) = 1 \<and>
   localStorage (handleWindowResize rt0 smallWindow 1700000000000 ready) =
     Some (JSON_stringify rt0 (workspaceData 1700000000000
             (handleWindowResize rt0 smallWindow 1700000000000 ready))) \<and>
   g_freePosition (cardData card2InCell ! 1) = None \<and>
   g_freePosition (cardData card2InCell ! 2) = Some (Num 250, Num 475) \<and>
   map (\<lambda>cd. (g_position cd, g_freePosition cd))
     (cardData (handleWindowResize_grid rt0 smallWindow card2InCell)) =
     [(None, Some (Num 10, Num 100)), (Some (Num 0, Num 1), None),
      (None, Some (Num 250, Num 400)), (None, Some (Num 400, Num 225))]"
proof -
  have q: "\<not> setItem_throws rt0 s" for s by (simp add: rt0_def)
  note r = resize_caps_from_above_only [of rt0 smallWindow 1700000000000 ready _ card2InCell]
  have p: "map position (map (resizeCard smallWindow) (cards ready)) =
     [(Num 100, Num 100), (Num 400, Num 150), (Num 200, Num 200), (Num 400, Num 200)]"
    by code_simp
  have c0: "setItemCalls ready = 0" by code_simp
  have g: "g_freePosition (cardData card2InCell ! 1) = None"
    "g_freePosition (cardData card2InCell ! 2) = Some (Num 250, Num 475)"
    by code_simp+
  have gm: "map (\<lambda>cd. (g_position cd, g_freePosition cd))
     (map (resizeGridCard smallWindow) (cardData card2InCell)) =
     [(None, Some (Num 10, Num 100)), (Some (Num 0, Num 1), None),
      (None, Some (Num 250, Num 400)), (None, Some (Num 400, Num 225))]"
    by code_simp
  from r q p c0 g gm show ?thesis by simp
qed


subsection \<open>Loading\<close>

lemma getProp_JNull [simp]: "getProp k JNull = None"
  by simp

lemma loadFromStorage_parsed:
  "localStorage st = Some saved \<Longrightarrow> JSON_parse rt saved = Some v \<Longrightarrow>
   loadFromStorage rt st =
     (if saved = [] \<or> v = JNull then Inr st
      else (case getProp ''cards'' v of
              Some (JArr cs) \<Rightarrow> adoptWorkspace rt cs (getProp ''maxZIndex'' v) st
            | _ \<Rightarrow> Inr st))"
  by (cases v) (auto simp add: loadFromStorage_def split: option.splits json.splits)

lemma load_not_adopted:
  assumes "\<not> decodesToCards rt (localStorage st)"
  shows "loadFromStorage rt st = Inr st"
proof (cases "localStorage st")
  case None
  then show ?thesis by (simp add: loadFromStorage_def)
next
  case (Some saved)
  note ls = this
  show ?thesis
  proof (cases "JSON_parse rt saved")
    case None
    with ls show ?thesis by (simp add: loadFromStorage_def)
  next
    case (Some v)
    with assms ls have nc: "\<And>cs. getProp ''cards'' v \<noteq> Some (JArr cs)"
      by (auto simp: decodesToCards_def split: option.splits json.splits)
    show ?thesis
      unfolding loadFromStorage_parsed [OF ls Some]
      using nc by (auto split: option.splits json.splits)
  qed
qed

lemma createAllCards_initial:
  "cards (createAllCards rt (initialState saved)) = seedCards"
  "maxZIndex (createAllCards rt (initialState saved)) = 4"
  "localStorage (createAllCards rt (initialState saved)) = saved"
  "map el_id (infoCards (document (createAllCards rt (initialState saved)))) = map card_id seedCards"
  by (simp_all add: createAllCards_def createCard_def initialState_def seedCards_def infoCards_def)

text \<open>
  C7. Unless the stored item decodes to a value whose \<^verbatim>\<open>cards\<close> property is an array,
  \<^verbatim>\<open>loadFromStorage\<close> leaves the whole state as it is: nothing of the item is adopted. At
  start-up \<^verbatim>\<open>initializeApp\<close> then shows the four seed cards: the store holds them with the
  counter at 4, one element per seed card is in the document, and the stored item is
  untouched.
\<close>

theorem malformed_blob_falls_back_to_seeds:
  assumes "\<not> decodesToCards rt (localStorage st)"
  shows "loadFromStorage rt st = Inr st \<and>
         (st = initialState (localStorage st) \<longrightarrow>
            initializeApp rt st = Inr (createAllCards rt st) \<and>
            cards (createAllCards rt st) = seedCards \<and>
            maxZIndex (createAllCards rt st) = 4 \<and>
            localStorage (createAllCards rt st) = localStorage st \<and>
            map el_id (infoCards (document (createAllCards rt st))) = map card_id seedCards)"
proof -
  have l: "loadFromStorage rt st = Inr st" using assms by (rule load_not_adopted)
  have "initializeApp rt st = Inr (createAllCards rt st)" if "st = initialState (localStorage st)"
  proof -
    have "document st = []" by (subst that) (simp add: initialState_def)
    with l show ?thesis by (simp add: initializeApp_def infoCards_def)
  qed
  with l createAllCards_initial [of rt "localStorage st"] show ?thesis by auto
qed

theorem malformed_blob_falls_back_to_seeds_witness:
  "\<not> decodesToCards rt0 (localStorage (initialState (Some variantBlob))) \<and>
   \<not> decodesToCards rt0 (localStorage (initialState (Some ''{not json'')))  \<and>
   JSON_parse rt0 variantBlob = Some (JObj [(''cardData'', JArr [])]) \<and>
   initializeApp rt0 (initialState (Some variantBlob)) =
     Inr (createAllCards rt0 (initialState (Some variantBlob))) \<and>
   cards (createAllCards rt0 (initialState (Some variantBlob))) = seedCards \<and>
   initializeApp rt0 (initialState (Some ''{not json'')) =
     Inr (createAllCards rt0 (initialState (Some ''{not json'')))"
proof -
  have a: "\<not> decodesToCards rt0 (localStorage (initialState (Some variantBlob)))"
    "\<not> decodesToCards rt0 (localStorage (initialState (Some ''{not json'')))" by code_simp+
  have p: "JSON_parse rt0 variantBlob = Some (JObj [(''cardData'', JArr [])])" by code_simp
  have i: "initialState (Some s) = initialState (localStorage (initialState (Some s)))" for s
    by (simp add: initialState_def)
  from malformed_blob_falls_back_to_seeds [OF a(1)] malformed_blob_falls_back_to_seeds [OF a(2)]
    i [of variantBlob] i [of "''{not json''"] a p
  show ?thesis by simp
qed

lemma createAllCards_fields [simp]:
  "cards (createAllCards rt st) = cards st"
  "maxZIndex (createAllCards rt st) = maxZIndex st"
proof -
  have "cards (foldl (\<lambda>s cardData. createCard rt cardData s) st cs) = cards st \<and>
        maxZIndex (foldl (\<lambda>s cardData. createCard rt cardData s) st cs) = maxZIndex st" for cs
    by (induction cs arbitrary: st) simp_all
  then show "cards (createAllCards rt st) = cards st"
    "maxZIndex (createAllCards rt st) = maxZIndex st"
    by (simp_all add: createAllCards_def)
qed

lemma load_without_counter:
  assumes "localStorage st = Some s" and "s \<noteq> []" and "JSON_parse rt s = Some v"
    and "getProp ''cards'' v = Some (JArr cs)" and "those (map cardOfJson cs) = Some cds"
    and "getProp ''maxZIndex'' v = None \<or> getProp ''maxZIndex'' v = Some (JNum 0)"
  shows "\<exists>st'. loadFromStorage rt st = Inr st' \<and> cards st' = cds \<and> maxZIndex st' = 4"
proof -
  from assms(4) have nn: "v \<noteq> JNull" by auto
  have m: "maxZIndexOr4 (getProp ''maxZIndex'' v) = Inr 4"
    using assms(6) by (auto simp: maxZIndexOr4_def)
  have "loadFromStorage rt st = adoptWorkspace rt cs (getProp ''maxZIndex'' v) st"
    using assms(2,4) nn by (simp add: loadFromStorage_parsed [OF assms(1,3)])
  then show ?thesis using assms(5) m by (simp add: adoptWorkspace_def)
qed

text \<open>
  C8. When the stored item decodes to a value with an array of card records under
  \<^verbatim>\<open>cards\<close> and with no \<^verbatim>\<open>maxZIndex\<close> property, or with \<^verbatim>\<open>maxZIndex\<close> zero, loading adopts the
  cards and sets the counter to 4 whatever layers the cards carry. If some loaded card has
  a layer above 4, the next \<^verbatim>\<open>bringCardToFront\<close> of a loaded card gives it layer 5, which is
  not above every loaded card's layer.
\<close>

theorem missing_counter_loads_as_four:
  assumes "localStorage st = Some s" and "s \<noteq> []" and "JSON_parse rt s = Some v"
    and "getProp ''cards'' v = Some (JArr cs)" and "those (map cardOfJson cs) = Some cds"
    and "getProp ''maxZIndex'' v = None \<or> getProp ''maxZIndex'' v = Some (JNum 0)"
  shows "\<exists>st'. loadFromStorage rt st = Inr st' \<and> cards st' = cds \<and> maxZIndex st' = 4 \<and>
           (\<forall>cid i. (\<exists>c \<in> set cds. 4 < zIndex c) \<longrightarrow>
                    findIndex (\<lambda>c. card_id c = cid) cds = Some i \<longrightarrow>
                    zIndex (cards (bringCardToFront cid st') ! i) = 5 \<and>
                    (\<exists>c \<in> set cds. zIndex (cards (bringCardToFront cid st') ! i) \<le> zIndex c))"
proof -
  from load_without_counter [OF assms] obtain st' where
    st': "loadFromStorage rt st = Inr st'" "cards st' = cds" "maxZIndex st' = 4" by blast
  have "zIndex (cards (bringCardToFront cid st') ! i) = 5 \<and>
        (\<exists>c \<in> set cds. zIndex (cards (bringCardToFront cid st') ! i) \<le> zIndex c)"
    if hi: "\<exists>c \<in> set cds. 4 < zIndex c" and f: "findIndex (\<lambda>c. card_id c = cid) cds = Some i"
    for cid i
  proof -
    from f st'(2) have f': "findIndex (\<lambda>c. card_id c = cid) (cards st') = Some i" by simp
    from findIndex_Some [OF f'] have "i < length (cards st')" by simp
    moreover have "increment 4 = 5" using increment_exact [of 4] by (simp add: exactRange_def)
    ultimately have z: "zIndex (cards (bringCardToFront cid st') ! i) = 5"
      using bringCardToFront_found(2) [OF f'] st'(3) by simp
    from hi obtain c where "c \<in> set cds" "4 < zIndex c" by blast
    then have "c \<in> set cds" "5 \<le> zIndex c" by simp_all
    with z show ?thesis by auto
  qed
  with st' show ?thesis by blast
qed

theorem missing_counter_loads_as_four_witness:
  "localStorage (initialState (Some highLayerSaved)) = Some highLayerSaved \<and>
   highLayerSaved \<noteq> [] \<and>
   JSON_parse rt0 highLayerSaved = Some highLayerBlob \<and>
   (\<exists>cs. getProp ''cards'' highLayerBlob = Some (JArr cs) \<and>
         those (map cardOfJson cs) = Some [highLayerCard]) \<and>
   getProp ''maxZIndex'' highLayerBlob = None \<and>
   findIndex (\<lambda>c. card_id c = ''card-9'') [highLayerCard] = Some 0 \<and>
   (\<exists>st'. loadFromStorage rt0 (initialState (Some highLayerSaved)) = Inr st' \<and>
          cards st' = [highLayerCard] \<and> maxZIndex st' = 4 \<and>
          zIndex (cards (bringCardToFront ''card-9'' st') ! 0) = 5)"
proof -
  have a: "localStorage (initialState (Some highLayerSaved)) = Some highLayerSaved"
    by (simp add: initialState_def)
  have b: "highLayerSaved \<noteq> []" by code_simp
  have c: "JSON_parse rt0 highLayerSaved = Some highLayerBlob" by code_simp
  have d: "getProp ''cards'' highLayerBlob = Some (JArr [JObj [(''id'', JStr ''card-9''),
             (''title'', JStr ''T''), (''content'', JStr ''C''),
             (''position'', JObj [(''x'', JNum 5), (''y'', JNum 6)]), (''zIndex'', JNum 10)]])"
    by (simp add: highLayerBlob_def)
  have e: "those (map cardOfJson [JObj [(''id'', JStr ''card-9''),
             (''title'', JStr ''T''), (''content'', JStr ''C''),
             (''position'', JObj [(''x'', JNum 5), (''y'', JNum 6)]), (''zIndex'', JNum 10)]])
           = Some [highLayerCard]"
    by code_simp
  have f: "getProp ''maxZIndex'' highLayerBlob = None" by (simp add: highLayerBlob_def)
  have g: "findIndex (\<lambda>c. card_id c = ''card-9'') [highLayerCard] = Some 0"
    by (simp add: highLayerCard_def)
  have h: "\<exists>c \<in> set [highLayerCard]. 4 < zIndex c" by (simp add: highLayerCard_def)
  from missing_counter_loads_as_four [OF a b c d e disjI1 [OF f]] g h
  have "\<exists>st'. loadFromStorage rt0 (initialState (Some highLayerSaved)) = Inr st' \<and>
          cards st' = [highLayerCard] \<and> maxZIndex st' = 4 \<and>
          zIndex (cards (bringCardToFront ''card-9'' st') ! 0) = 5"
    by blast
  with a b c d e f g show ?thesis by blast
qed


subsection \<open>The grid document\<close>

lemma modifyElement_fields [simp]:
  "cardData (modifyElement h f st) = cardData st"
  "bodyChildren (modifyElement h f st) = bodyChildren st"
  "gridCells (modifyElement h f st) = gridCells st"
  "body_row (modifyElement h f st) = body_row st"
  "body_col (modifyElement h f st) = body_col st"
  "g_isDragging (modifyElement h f st) = g_isDragging st"
  "g_draggedCard (modifyElement h f st) = g_draggedCard st"
  "length (elements (modifyElement h f st)) = length (elements st)"
  by (simp_all add: modifyElement_def)

lemma modifyElement_ids [simp]:
  "(\<And>e. ce_id (f e) = ce_id e) \<Longrightarrow>
   map ce_id (elements (modifyElement h f st)) = map ce_id (elements st)"
  by (simp add: modifyElement_def map_update_same)

lemma parentElement_modifyElement [simp]:
  "parentElement j (modifyElement h f st) = parentElement j st"
  by (simp add: parentElement_def)

lemma detach_fields [simp]:
  "cardData (detach h st) = cardData st"
  "elements (detach h st) = elements st"
  "body_row (detach h st) = body_row st"
  "body_col (detach h st) = body_col st"
  "g_isDragging (detach h st) = g_isDragging st"
  "g_draggedCard (detach h st) = g_draggedCard st"
  "bodyChildren (detach h st) = removeAll h (bodyChildren st)"
  "length (gridCells (detach h st)) = length (gridCells st)"
  "map cell_rect (gridCells (detach h st)) = map cell_rect (gridCells st)"
  "map cell_row (gridCells (detach h st)) = map cell_row (gridCells st)"
  "map cell_col (gridCells (detach h st)) = map cell_col (gridCells st)"
  "map cell_children (gridCells (detach h st)) =
     map (\<lambda>c. removeAll h (cell_children c)) (gridCells st)"
  by (simp_all add: detach_def comp_def)

lemma appendChild_fields [simp]:
  "cardData (appendChild n h st) = cardData st"
  "elements (appendChild n h st) = elements st"
  "body_row (appendChild n h st) = body_row st"
  "body_col (appendChild n h st) = body_col st"
  "g_isDragging (appendChild n h st) = g_isDragging st"
  "g_draggedCard (appendChild n h st) = g_draggedCard st"
  "length (gridCells (appendChild n h st)) = length (gridCells st)"
  "map cell_rect (gridCells (appendChild n h st)) = map cell_rect (gridCells st)"
  "map cell_row (gridCells (appendChild n h st)) = map cell_row (gridCells st)"
  "map cell_col (gridCells (appendChild n h st)) = map cell_col (gridCells st)"
  by (cases n; simp add: Let_def map_update_same)+

lemma appendChild_Body_children [simp]:
  "bodyChildren (appendChild Body h st) = removeAll h (bodyChildren st) @ [h]"
  "map cell_children (gridCells (appendChild Body h st)) =
     map (\<lambda>c. removeAll h (cell_children c)) (gridCells st)"
  by (simp_all add: Let_def)

lemma nth_map_eq: "map f xs = map g ys \<Longrightarrow> k < length ys \<Longrightarrow> f (xs ! k) = g (ys ! k)"
  by (metis length_map nth_map)

lemma appendChild_Cell_children:
  assumes "k < length (gridCells st)"
  shows "cell_children (gridCells (appendChild (Cell k) h st) ! k) =
           removeAll h (cell_children (gridCells st ! k)) @ [h]"
proof -
  have "cell_children (gridCells (detach h st) ! k) = removeAll h (cell_children (gridCells st ! k))"
    using nth_map_eq [OF detach_fields(12) assms, of h] .
  with assms show ?thesis by (simp add: Let_def)
qed

lemma updateCardDataPosition_fields [simp]:
  "elements (updateCardDataPosition h gp fp st) = elements st"
  "bodyChildren (updateCardDataPosition h gp fp st) = bodyChildren st"
  "gridCells (updateCardDataPosition h gp fp st) = gridCells st"
  "body_row (updateCardDataPosition h gp fp st) = body_row st"
  "body_col (updateCardDataPosition h gp fp st) = body_col st"
  "g_isDragging (updateCardDataPosition h gp fp st) = g_isDragging st"
  "g_draggedCard (updateCardDataPosition h gp fp st) = g_draggedCard st"
  by (simp_all add: updateCardDataPosition_def split: option.splits)

lemma updateCardDataPosition_grid:
  assumes "h < length (elements st)"
    and "findIndex (\<lambda>data. g_id data = ce_id (elements st ! h)) (cardData st) = Some i"
  shows "cardData (updateCardDataPosition h (Some gp) fp st) =
           (cardData st)[i := (cardData st ! i)\<lparr>g_position := Some gp, g_freePosition := None\<rparr>]"
  using assms by (simp add: updateCardDataPosition_def)

lemma cleanupAfterDrag_fields [simp]:
  "cardData (cleanupAfterDrag st) = cardData st"
  "bodyChildren (cleanupAfterDrag st) = bodyChildren st"
  "map cell_children (gridCells (cleanupAfterDrag st)) = map cell_children (gridCells st)"
  "length (gridCells (cleanupAfterDrag st)) = length (gridCells st)"
  "\<not> g_isDragging (cleanupAfterDrag st)"
  "g_draggedCard (cleanupAfterDrag st) = None"
  by (simp_all add: cleanupAfterDrag_def clearDropTargets_def Let_def comp_def
      split: option.splits)

lemma findIndex_map: "findIndex P (map f xs) = findIndex (\<lambda>x. P (f x)) xs"
  by (induction xs) simp_all

lemma findGridCellUnderMouse_rects:
  "map cell_rect (gridCells s) = map cell_rect (gridCells t) \<Longrightarrow>
   findGridCellUnderMouse x y s = findGridCellUnderMouse x y t"
proof -
  assume "map cell_rect (gridCells s) = map cell_rect (gridCells t)"
  then have "findIndex (inRect x y) (map cell_rect (gridCells s)) =
             findIndex (inRect x y) (map cell_rect (gridCells t))" by simp
  then show ?thesis by (simp add: findGridCellUnderMouse_def findIndex_map)
qed

subsection \<open>Picking a card up and moving it\<close>

lemma startDragging_pickedUp:
  assumes "g_currentTarget ev = h" and "h < length (elements st)"
    and "parentElement h st = Some p"
  shows "\<exists>s. startDragging rt ev st = Inr s \<and> pickedUp st h s"
  using assms
  by (simp add: startDragging_def Let_def convertCardToFreePosition_def pickedUp_def)

lemma clearDropTargets_fields [simp]:
  "cardData (clearDropTargets st) = cardData st"
  "elements (clearDropTargets st) = elements st"
  "bodyChildren (clearDropTargets st) = bodyChildren st"
  "body_row (clearDropTargets st) = body_row st"
  "body_col (clearDropTargets st) = body_col st"
  "g_isDragging (clearDropTargets st) = g_isDragging st"
  "g_draggedCard (clearDropTargets st) = g_draggedCard st"
  "map cell_rect (gridCells (clearDropTargets st)) = map cell_rect (gridCells st)"
  "map cell_row (gridCells (clearDropTargets st)) = map cell_row (gridCells st)"
  "map cell_col (gridCells (clearDropTargets st)) = map cell_col (gridCells st)"
  "map cell_children (gridCells (clearDropTargets st)) = map cell_children (gridCells st)"
  by (simp_all add: clearDropTargets_def comp_def)

lemma showDropTargetFeedback_fields [simp]:
  "cardData (showDropTargetFeedback x y st) = cardData st"
  "elements (showDropTargetFeedback x y st) = elements st"
  "bodyChildren (showDropTargetFeedback x y st) = bodyChildren st"
  "body_row (showDropTargetFeedback x y st) = body_row st"
  "body_col (showDropTargetFeedback x y st) = body_col st"
  "g_isDragging (showDropTargetFeedback x y st) = g_isDragging st"
  "g_draggedCard (showDropTargetFeedback x y st) = g_draggedCard st"
  "map cell_rect (gridCells (showDropTargetFeedback x y st)) = map cell_rect (gridCells st)"
  "map cell_row (gridCells (showDropTargetFeedback x y st)) = map cell_row (gridCells st)"
  "map cell_col (gridCells (showDropTargetFeedback x y st)) = map cell_col (gridCells st)"
  "map cell_children (gridCells (showDropTargetFeedback x y st)) = map cell_children (gridCells st)"
  by (simp_all add: showDropTargetFeedback_def Let_def map_update_same split: option.splits)

lemma handleMouseMovement_pickedUp:
  "pickedUp st h s \<Longrightarrow> pickedUp st h (handleMouseMovement rt p s)"
  by (simp add: pickedUp_def handleMouseMovement_def Let_def)

lemma moves_pickedUp: "pickedUp st h s \<Longrightarrow> pickedUp st h (moves rt ps s)"
proof (induction ps arbitrary: s)
  case Nil
  then show ?case by (simp add: moves_def)
next
  case (Cons p ps)
  from Cons.prems have "pickedUp st h (handleMouseMovement rt p s)"
    by (rule handleMouseMovement_pickedUp)
  then have "pickedUp st h (moves rt ps (handleMouseMovement rt p s))" by (rule Cons.IH)
  then show ?case by (simp add: moves_def)
qed


subsection \<open>Dropping on a grid cell\<close>

lemma modifyElement_nth:
  "h < length (elements st) \<Longrightarrow> elements (modifyElement h f st) ! h = f (elements st ! h)"
  by (simp add: modifyElement_def)

lemma dataset_cong:
  assumes "map cell_row (gridCells s) = map cell_row (gridCells t)"
    and "map cell_col (gridCells s) = map cell_col (gridCells t)"
    and "body_row s = body_row t" and "body_col s = body_col t"
  shows "dataset_row s n = dataset_row t n" and "dataset_col s n = dataset_col t n"
proof -
  have l: "length (gridCells s) = length (gridCells t)"
    using assms(1) by (metis length_map)
  show "dataset_row s n = dataset_row t n"
    using assms(1,3) l by (cases n) (auto dest: nth_map_eq [of cell_row _ cell_row])
  show "dataset_col s n = dataset_col t n"
    using assms(2,4) l by (cases n) (auto dest: nth_map_eq [of cell_col _ cell_col])
qed

lemma moveCardToGridCell_fields [simp]:
  "length (elements (moveCardToGridCell h n s)) = length (elements s)"
  "map ce_id (elements (moveCardToGridCell h n s)) = map ce_id (elements s)"
  "body_row (moveCardToGridCell h n s) = body_row s"
  "body_col (moveCardToGridCell h n s) = body_col s"
  "g_isDragging (moveCardToGridCell h n s) = g_isDragging s"
  "g_draggedCard (moveCardToGridCell h n s) = g_draggedCard s"
  "length (gridCells (moveCardToGridCell h n s)) = length (gridCells s)"
  "map cell_row (gridCells (moveCardToGridCell h n s)) = map cell_row (gridCells s)"
  "map cell_col (gridCells (moveCardToGridCell h n s)) = map cell_col (gridCells s)"
  by (simp_all add: moveCardToGridCell_def Let_def)

lemma moveCardToGridCell_children:
  "k < length (gridCells s) \<Longrightarrow>
   cell_children (gridCells (moveCardToGridCell h (Cell k) s) ! k) =
     removeAll h (cell_children (gridCells s ! k)) @ [h]"
  "map cell_children (gridCells (moveCardToGridCell h Body s)) =
     map (\<lambda>c. removeAll h (cell_children c)) (gridCells s)"
  by (simp_all add: moveCardToGridCell_def Let_def appendChild_Cell_children
      del: appendChild.simps)

lemma ce_id_nth_eq:
  "map ce_id (elements s) = map ce_id (elements t) \<Longrightarrow> h < length (elements t) \<Longrightarrow>
   ce_id (elements s ! h) = ce_id (elements t ! h)"
  by (rule nth_map_eq)

lemma moveCardToGridCell_cardData:
  assumes "h < length (elements s)"
    and "findIndex (\<lambda>data. g_id data = ce_id (elements s ! h)) (cardData s) = Some i"
  shows "cardData (moveCardToGridCell h n s) =
           (cardData s)[i := (cardData s ! i)
              \<lparr>g_position := Some (parseInt_attr (dataset_row s n), parseInt_attr (dataset_col s n)),
               g_freePosition := None\<rparr>]"
proof -
  define f :: "cardElement \<Rightarrow> cardElement" where "f = (\<lambda>e. e\<lparr>cls_free_position := False,
                         ce_left := [], ce_top := [], ce_width := [], ce_height := [],
                         ce_row := attrString (dataset_row s n),
                         ce_col := attrString (dataset_col s n)\<rparr>)"
  define s2 where "s2 = appendChild n h (modifyElement h f s)"
  have idf: "ce_id (f e) = ce_id e" for e by (simp add: f_def)
  have e2: "ce_id (elements s2 ! h) = ce_id (elements s ! h)"
    using assms(1) by (simp add: s2_def modifyElement_nth idf)
  have l2: "h < length (elements s2)" using assms(1) by (simp add: s2_def)
  have c2: "cardData s2 = cardData s" by (simp add: s2_def)
  have "moveCardToGridCell h n s =
          updateCardDataPosition h
            (Some (parseInt_attr (dataset_row s n), parseInt_attr (dataset_col s n))) None s2"
    by (simp add: moveCardToGridCell_def Let_def s2_def f_def)
  then show ?thesis
    using updateCardDataPosition_grid [OF l2, of i] assms(2) e2 c2 by simp
qed

lemma moveCardToGridCell_other:
  assumes "i < length (cardData s)"
    and "h < length (elements s) \<longrightarrow> g_id (cardData s ! i) \<noteq> ce_id (elements s ! h)"
  shows "cardData (moveCardToGridCell h n s) ! i = cardData s ! i"
proof (cases "h < length (elements s)")
  case False
  then show ?thesis
    by (simp add: moveCardToGridCell_def Let_def updateCardDataPosition_def)
next
  case True
  show ?thesis
  proof (cases "findIndex (\<lambda>data. g_id data = ce_id (elements s ! h)) (cardData s)")
    case None
    define f :: "cardElement \<Rightarrow> cardElement" where "f = (\<lambda>e. e\<lparr>cls_free_position := False,
                         ce_left := [], ce_top := [], ce_width := [], ce_height := [],
                         ce_row := attrString (dataset_row s n),
                         ce_col := attrString (dataset_col s n)\<rparr>)"
    have idf: "ce_id (f e) = ce_id e" for e by (simp add: f_def)
    have "ce_id (elements (appendChild n h (modifyElement h f s)) ! h) = ce_id (elements s ! h)"
      using True by (simp add: modifyElement_nth idf)
    with None True show ?thesis
      by (simp add: moveCardToGridCell_def Let_def updateCardDataPosition_def f_def)
  next
    case (Some j)
    from findIndex_Some [OF Some] have "g_id (cardData s ! j) = ce_id (elements s ! h)" by simp
    with assms(2) True have "j \<noteq> i" by auto
    with moveCardToGridCell_cardData [OF True Some, of n] show ?thesis by simp
  qed
qed

lemma existingCardIn_empty:
  "k < length (gridCells s) \<Longrightarrow> cell_children (gridCells s ! k) = [] \<Longrightarrow>
   existingCardIn k s = None"
  by (simp add: existingCardIn_def)

lemma stopDragging_empty_cell:
  assumes "g_isDragging s" and "g_draggedCard s = Some h"
    and "findGridCellUnderMouse x y s = Some k" and "existingCardIn k s = None"
  shows "stopDragging (x, y) s = Inr (cleanupAfterDrag (moveCardToGridCell h (Cell k) s))"
  using assms by (simp add: stopDragging_def snapCardToGrid_def)

lemma record_same:
  "g_position r = Some gp \<Longrightarrow> g_freePosition r = None \<Longrightarrow>
   r\<lparr>g_position := Some gp, g_freePosition := None\<rparr> = r"
  by simp

text \<open>
  C2. A card that rests in a grid cell as the cell's only card, with the stored placement
  the program writes for that cell (the parsed \<^verbatim>\<open>data-row\<close> and \<^verbatim>\<open>data-col\<close> of the cell, and
  no free position), is pressed, moved about and released over the same cell. Then the
  press picks the card up, at release the cell holds no other card, so \<^verbatim>\<open>snapCardToGrid\<close>
  does not swap, and after the release the whole store \<^verbatim>\<open>CONFIG.cardData\<close> is what it was,
  the card is the cell's only card again and the drag is over.
\<close>

theorem drop_on_own_cell_noop:
  assumes "g_currentTarget ev = h" and "h < length (elements st)"
    and "parentElement h st = Some (Cell k)"
    and "cell_children (gridCells st ! k) = [h]"
    and "findIndex (\<lambda>data. g_id data = ce_id (elements st ! h)) (cardData st) = Some i"
    and "g_position (cardData st ! i) =
           Some (parseInt_attr (cell_row (gridCells st ! k)),
                 parseInt_attr (cell_col (gridCells st ! k)))"
    and "g_freePosition (cardData st ! i) = None"
    and "findGridCellUnderMouse x y st = Some k"
  shows "\<exists>s s'. startDragging rt ev st = Inr s \<and>
                existingCardIn k (moves rt ps s) = None \<and>
                stopDragging (x, y) (moves rt ps s) = Inr s' \<and>
                cardData s' = cardData st \<and>
                cell_children (gridCells s' ! k) = [h] \<and>
                \<not> g_isDragging s'"
proof -
  from startDragging_pickedUp [OF assms(1-3)] obtain s where
    s: "startDragging rt ev st = Inr s" "pickedUp st h s" by blast
  define r where "r = moves rt ps s"
  have pu: "pickedUp st h r" unfolding r_def using s(2) by (rule moves_pickedUp)
  from findIndex_Some [OF assms(8) [unfolded findGridCellUnderMouse_def]]
  have k: "k < length (gridCells st)" by simp
  have lr: "length (gridCells r) = length (gridCells st)"
    using pu by (metis pickedUp_def length_map)
  have kr: "k < length (gridCells r)" using k lr by simp
  have under: "findGridCellUnderMouse x y r = Some k"
    using pu assms(8) findGridCellUnderMouse_rects [of r st x y] by (simp add: pickedUp_def)
  have ch: "cell_children (gridCells r ! k) = removeAll h (cell_children (gridCells st ! k))"
    using pu k nth_map_eq [of cell_children "gridCells r" "\<lambda>c. removeAll h (cell_children c)"
        "gridCells st" k]
    by (simp add: pickedUp_def)
  then have empty: "cell_children (gridCells r ! k) = []" using assms(4) by simp
  have none: "existingCardIn k r = None" using kr empty by (rule existingCardIn_empty)
  have dr: "g_isDragging r" "g_draggedCard r = Some h" using pu by (simp_all add: pickedUp_def)
  define s' where "s' = cleanupAfterDrag (moveCardToGridCell h (Cell k) r)"
  have stop: "stopDragging (x, y) r = Inr s'"
    unfolding s'_def using dr under none by (rule stopDragging_empty_cell)
  have le: "length (elements r) = length (elements st)"
    using pu by (metis pickedUp_def length_map)
  have hr: "h < length (elements r)" using assms(2) le by simp
  have idr: "ce_id (elements r ! h) = ce_id (elements st ! h)"
    using pu assms(2) ce_id_nth_eq [of r st h] by (simp add: pickedUp_def)
  have cd: "cardData r = cardData st" using pu by (simp add: pickedUp_def)
  have fi: "findIndex (\<lambda>data. g_id data = ce_id (elements r ! h)) (cardData r) = Some i"
    using assms(5) idr cd by simp
  have rows: "dataset_row r (Cell k) = cell_row (gridCells st ! k)"
    "dataset_col r (Cell k) = cell_col (gridCells st ! k)"
    using pu k dataset_cong [of r st "Cell k"] by (simp_all add: pickedUp_def)
  have "cardData (moveCardToGridCell h (Cell k) r) =
          (cardData st)[i := (cardData st ! i)
             \<lparr>g_position := Some (parseInt_attr (cell_row (gridCells st ! k)),
                                   parseInt_attr (cell_col (gridCells st ! k))),
              g_freePosition := None\<rparr>]"
    using moveCardToGridCell_cardData [OF hr fi, of "Cell k"] rows cd by simp
  also have "\<dots> = cardData st"
    using record_same [OF assms(6,7)] by (simp add: list_update_same_conv)
  finally have same: "cardData s' = cardData st" by (simp add: s'_def)
  have "cell_children (gridCells (moveCardToGridCell h (Cell k) r) ! k) = [h]"
    using moveCardToGridCell_children(1) [OF kr, of h] empty by simp
  moreover have "cell_children (gridCells s' ! k) =
                 cell_children (gridCells (moveCardToGridCell h (Cell k) r) ! k)"
    unfolding s'_def
    using nth_map_eq [OF cleanupAfterDrag_fields(3), of k "moveCardToGridCell h (Cell k) r"] kr
    by simp
  ultimately have occ: "cell_children (gridCells s' ! k) = [h]" by simp
  have idle: "\<not> g_isDragging s'" by (simp add: s'_def)
  from s(1) none stop same occ idle show ?thesis unfolding r_def by blast
qed

theorem drop_on_own_cell_noop_witness:
  "g_currentTarget (pressGrid 1 400 100) = 1 \<and> 1 < length (elements card2InCell) \<and>
   parentElement 1 card2InCell = Some (Cell 1) \<and>
   cell_children (gridCells card2InCell ! 1) = [1] \<and>
   findIndex (\<lambda>data. g_id data = ce_id (elements card2InCell ! 1)) (cardData card2InCell) = Some 1 \<and>
   g_position (cardData card2InCell ! 1) =
     Some (parseInt_attr (cell_row (gridCells card2InCell ! 1)),
           parseInt_attr (cell_col (gridCells card2InCell ! 1))) \<and>
   g_position (cardData card2InCell ! 1) = Some (Num 0, Num 1) \<and>
   g_freePosition (cardData card2InCell ! 1) = None \<and>
   findGridCellUnderMouse 450 150 card2InCell = Some 1 \<and>
   (\<exists>s s'. startDragging rt0 (pressGrid 1 400 100) card2InCell = Inr s \<and>
           stopDragging (450, 150) (moves rt0 [(900, 700), (450, 150)] s) = Inr s' \<and>
           cardData s' = cardData card2InCell)"
proof -
  have a: "g_currentTarget (pressGrid 1 400 100) = 1" by (simp add: pressGrid_def)
  have b: "1 < length (elements card2InCell)" by code_simp
  have c: "parentElement 1 card2InCell = Some (Cell 1)" by code_simp
  have d: "cell_children (gridCells card2InCell ! 1) = [1]" by code_simp
  have e: "findIndex (\<lambda>data. g_id data = ce_id (elements card2InCell ! 1)) (cardData card2InCell)
             = Some 1" by code_simp
  have f: "g_position (cardData card2InCell ! 1) =
     Some (parseInt_attr (cell_row (gridCells card2InCell ! 1)),
           parseInt_attr (cell_col (gridCells card2InCell ! 1)))" by code_simp
  have f': "g_position (cardData card2InCell ! 1) = Some (Num 0, Num 1)" by code_simp
  have g: "g_freePosition (cardData card2InCell ! 1) = None" by code_simp
  have h: "findGridCellUnderMouse 450 150 card2InCell = Some 1" by code_simp
  from drop_on_own_cell_noop [OF a b c d e f g h, of rt0 "[(900, 700), (450, 150)]"]
  have "\<exists>s s'. startDragging rt0 (pressGrid 1 400 100) card2InCell = Inr s \<and>
           stopDragging (450, 150) (moves rt0 [(900, 700), (450, 150)] s) = Inr s' \<and>
           cardData s' = cardData card2InCell"
    by blast
  with a b c d e f f' g h show ?thesis by blast
qed

subsection \<open>Dropping on an occupied cell\<close>

lemma existingCardIn_Some:
  "existingCardIn k s = Some b \<Longrightarrow>
   k < length (gridCells s) \<and> b \<in> set (cell_children (gridCells s ! k)) \<and>
   b < length (elements s)"
  by (auto simp: existingCardIn_def find_Some_iff split: if_splits)

lemma stopDragging_occupied_cell:
  assumes "g_isDragging s" and "g_draggedCard s = Some a"
    and "findGridCellUnderMouse x y s = Some k" and "existingCardIn k s = Some b"
    and "parentElement a s = Some Body" and "parentElement b s = Some (Cell k)"
  shows "stopDragging (x, y) s =
           Inr (cleanupAfterDrag (moveCardToGridCell b Body (moveCardToGridCell a (Cell k) s)))"
  using assms
  by (simp add: stopDragging_def snapCardToGrid_def swapCardPositions_def moveCardToParent_def
      Let_def)

text \<open>
  C1 (as amended). A dragged card \<open>a\<close>, re-homed under the body by the press, is released
  over a grid cell in which \<^verbatim>\<open>snapCardToGrid\<close> finds a different card \<open>b\<close>. Then the release
  succeeds, the dragged card's stored placement is the cell (the parsed \<^verbatim>\<open>data-row\<close> and
  \<^verbatim>\<open>data-col\<close> of the cell) with no free position, the dragged card is the last card of
  the cell, \<open>b\<close> is no longer in the cell, and the drag is over.
\<close>

theorem drop_on_occupied_cell:
  assumes "g_isDragging s" and "g_draggedCard s = Some a" and "a < length (elements s)"
    and "findGridCellUnderMouse x y s = Some k" and "existingCardIn k s = Some b"
    and "parentElement a s = Some Body" and "parentElement b s = Some (Cell k)"
    and "ce_id (elements s ! a) \<noteq> ce_id (elements s ! b)"
    and "findIndex (\<lambda>data. g_id data = ce_id (elements s ! a)) (cardData s) = Some i"
  shows "\<exists>s'. stopDragging (x, y) s = Inr s' \<and>
              g_position (cardData s' ! i) =
                Some (parseInt_attr (cell_row (gridCells s ! k)),
                      parseInt_attr (cell_col (gridCells s ! k))) \<and>
              g_freePosition (cardData s' ! i) = None \<and>
              cell_children (gridCells s' ! k) =
                removeAll b (removeAll a (cell_children (gridCells s ! k))) @ [a] \<and>
              \<not> g_isDragging s'"
proof -
  from existingCardIn_Some [OF assms(5)] have k: "k < length (gridCells s)"
    and bl: "b < length (elements s)" by simp_all
  from assms(8) have ab: "a \<noteq> b" by auto
  from findIndex_Some [OF assms(9)] have i: "i < length (cardData s)"
    and ia: "g_id (cardData s ! i) = ce_id (elements s ! a)" by simp_all
  define s1 where "s1 = moveCardToGridCell a (Cell k) s"
  define s2 where "s2 = moveCardToGridCell b Body s1"
  define s' where "s' = cleanupAfterDrag s2"
  have stop: "stopDragging (x, y) s = Inr s'"
    unfolding s'_def s2_def s1_def using assms(1,2,4,5,6,7) by (rule stopDragging_occupied_cell)
  have c1: "cardData s1 = (cardData s)[i := (cardData s ! i)
              \<lparr>g_position := Some (parseInt_attr (cell_row (gridCells s ! k)),
                                    parseInt_attr (cell_col (gridCells s ! k))),
               g_freePosition := None\<rparr>]"
    unfolding s1_def using moveCardToGridCell_cardData [OF assms(3,9), of "Cell k"] k by simp
  have i1: "i < length (cardData s1)" using i c1 by simp
  have id1: "g_id (cardData s1 ! i) = ce_id (elements s ! a)" using c1 i ia by simp
  have eb: "ce_id (elements s1 ! b) = ce_id (elements s ! b)"
    unfolding s1_def using ce_id_nth_eq [of "moveCardToGridCell a (Cell k) s" s b] bl by simp
  have keep: "cardData s2 ! i = cardData s1 ! i"
    unfolding s2_def using i1 id1 eb assms(8) by (intro moveCardToGridCell_other) auto
  have pos: "g_position (cardData s' ! i) =
                Some (parseInt_attr (cell_row (gridCells s ! k)),
                      parseInt_attr (cell_col (gridCells s ! k)))"
    and free: "g_freePosition (cardData s' ! i) = None"
    using keep c1 i by (simp_all add: s'_def)
  have ch1: "cell_children (gridCells s1 ! k) = removeAll a (cell_children (gridCells s ! k)) @ [a]"
    unfolding s1_def using k by (rule moveCardToGridCell_children(1))
  have k1: "k < length (gridCells s1)" using k by (simp add: s1_def)
  have ch2: "cell_children (gridCells s2 ! k) = removeAll b (cell_children (gridCells s1 ! k))"
    unfolding s2_def
    using nth_map_eq [OF moveCardToGridCell_children(2) k1, of b] .
  have k2: "k < length (gridCells s2)" using k1 by (simp add: s2_def)
  have ch': "cell_children (gridCells s' ! k) = cell_children (gridCells s2 ! k)"
    unfolding s'_def using nth_map_eq [OF cleanupAfterDrag_fields(3) k2] .
  have occ: "cell_children (gridCells s' ! k) =
               removeAll b (removeAll a (cell_children (gridCells s ! k))) @ [a]"
    using ch' ch2 ch1 ab by simp
  have idle: "\<not> g_isDragging s'" by (simp add: s'_def)
  from stop pos free occ idle show ?thesis by blast
qed

text \<open>
  C1 as stated fails: card-1, free at \<^verbatim>\<open>{x: 10, y: 100}\<close>, is dropped on the cell of row 0,
  column 1, which holds card-2. Card-1 takes the cell, and card-2 is left with no free
  position at all and with the grid placement \<^verbatim>\<open>{row: NaN, col: NaN}\<close>.
\<close>

theorem evicted_card_not_free_counterexample:
  "g_freePosition (cardData (stateOf (stopDragging (450, 150) card1PickedUp)) ! 1) = None \<and>
   g_position (cardData (stateOf (stopDragging (450, 150) card1PickedUp)) ! 1) = Some (NaN, NaN) \<and>
   g_position (cardData (stateOf (stopDragging (450, 150) card1PickedUp)) ! 0)
     = Some (Num 0, Num 1) \<and>
   g_freePosition (cardData card1PickedUp ! 0) = Some (Num 10, Num 100) \<and>
   g_position (cardData card1PickedUp ! 1) = Some (Num 0, Num 1)"
  by code_simp

theorem drop_on_occupied_cell_witness:
  "g_isDragging card1PickedUp \<and> g_draggedCard card1PickedUp = Some 0 \<and>
   0 < length (elements card1PickedUp) \<and>
   findGridCellUnderMouse 450 150 card1PickedUp = Some 1 \<and>
   existingCardIn 1 card1PickedUp = Some 1 \<and>
   parentElement 0 card1PickedUp = Some Body \<and>
   parentElement 1 card1PickedUp = Some (Cell 1) \<and>
   ce_id (elements card1PickedUp ! 0) \<noteq> ce_id (elements card1PickedUp ! 1) \<and>
   findIndex (\<lambda>data. g_id data = ce_id (elements card1PickedUp ! 0)) (cardData card1PickedUp)
     = Some 0 \<and>
   (\<exists>s'. stopDragging (450, 150) card1PickedUp = Inr s' \<and>
         g_position (cardData s' ! 0) = Some (Num 0, Num 1) \<and>
         g_freePosition (cardData s' ! 0) = None \<and>
         cell_children (gridCells s' ! 1) = [0])"
proof -
  have h: "g_isDragging card1PickedUp" "g_draggedCard card1PickedUp = Some 0"
    "0 < length (elements card1PickedUp)"
    "findGridCellUnderMouse 450 150 card1PickedUp = Some 1"
    "existingCardIn 1 card1PickedUp = Some 1"
    "parentElement 0 card1PickedUp = Some Body"
    "parentElement 1 card1PickedUp = Some (Cell 1)"
    "ce_id (elements card1PickedUp ! 0) \<noteq> ce_id (elements card1PickedUp ! 1)"
    "findIndex (\<lambda>data. g_id data = ce_id (elements card1PickedUp ! 0)) (cardData card1PickedUp)
       = Some 0"
    by code_simp+
  have v: "parseInt_attr (cell_row (gridCells card1PickedUp ! 1)) = Num 0"
    "parseInt_attr (cell_col (gridCells card1PickedUp ! 1)) = Num 1"
    "removeAll 1 (removeAll 0 (cell_children (gridCells card1PickedUp ! 1))) @ [0] = [0::nat]"
    by code_simp+
  from drop_on_occupied_cell [OF h] v
  have "\<exists>s'. stopDragging (450, 150) card1PickedUp = Inr s' \<and>
         g_position (cardData s' ! 0) = Some (Num 0, Num 1) \<and>
         g_freePosition (cardData s' ! 0) = None \<and>
         cell_children (gridCells s' ! 1) = [0]"
    by auto
  with h show ?thesis by blast
qed


subsection \<open>Release outside the grid\<close>

lemma updateCardDataPosition_free:
  assumes "h < length (elements st)"
    and "findIndex (\<lambda>data. g_id data = ce_id (elements st ! h)) (cardData st) = Some i"
  shows "cardData (updateCardDataPosition h None fp st) =
           (cardData st)[i := (cardData st ! i)\<lparr>g_position := None, g_freePosition := fp\<rparr>]"
  using assms by (simp add: updateCardDataPosition_def)

lemma stopDragging_free:
  assumes "g_isDragging s" and "g_draggedCard s = Some h" and "h < length (elements s)"
    and "findGridCellUnderMouse x y s = None"
    and "findIndex (\<lambda>data. g_id data = ce_id (elements s ! h)) (cardData s) = Some i"
  shows "\<exists>s'. stopDragging (x, y) s = Inr s' \<and>
              g_freePosition (cardData s' ! i) =
                Some (parseInt (ce_left (elements s ! h)), parseInt (ce_top (elements s ! h))) \<and>
              g_position (cardData s' ! i) = None"
proof -
  define s1 where "s1 = modifyElement h (\<lambda>e. e\<lparr>cls_dragging := False\<rparr>) s"
  have e1: "elements s1 ! h = (elements s ! h)\<lparr>cls_dragging := False\<rparr>"
    unfolding s1_def using assms(3) by (rule modifyElement_nth)
  have l1: "h < length (elements s1)" using assms(3) by (simp add: s1_def)
  have f1: "findIndex (\<lambda>data. g_id data = ce_id (elements s1 ! h)) (cardData s1) = Some i"
    using assms(5) e1 by (simp add: s1_def)
  have fin: "finalizeCardFreePosition h s =
               updateCardDataPosition h None
                 (Some (parseInt (ce_left (elements s ! h)), parseInt (ce_top (elements s ! h)))) s1"
    using assms(3) e1 by (simp add: finalizeCardFreePosition_def Let_def s1_def)
  from findIndex_Some [OF assms(5)] have i: "i < length (cardData s)" by simp
  have cd: "cardData (finalizeCardFreePosition h s) =
              (cardData s)[i := (cardData s ! i)\<lparr>g_position := None,
                 g_freePosition := Some (parseInt (ce_left (elements s ! h)),
                                         parseInt (ce_top (elements s ! h)))\<rparr>]"
    unfolding fin using updateCardDataPosition_free [OF l1 f1] by (simp add: s1_def)
  have "stopDragging (x, y) s = Inr (cleanupAfterDrag (finalizeCardFreePosition h s))"
    using assms(1,2,4) by (simp add: stopDragging_def)
  with cd i show ?thesis by simp
qed

text \<open>
  C5 (as amended). On release the layered workspace stores, for the released card, the
  integer parse of the element's \<^verbatim>\<open>style.left\<close> and \<^verbatim>\<open>style.top\<close> strings. After a move to
  pointer position \<open>p\<close> these are the printed differences of \<open>p\<close> and the offset captured at
  press time, so, where the runtime prints them in decimal notation, the stored position
  is that difference truncated toward zero. In the grid workspace a release over no grid
  cell stores the same two parses as the card's free position and clears its grid
  position. The window size plays no part: nothing is clamped, and the stored position may
  be negative or beyond the viewport.
\<close>

theorem release_stores_unclamped_parse:
  assumes "isDragging st" and "draggedCard st = Some h" and "h < length (document st)"
    and "findIndex (\<lambda>data. card_id data = el_id (document st ! h)) (cards st) = Some i"
  shows "position (cards (stopDrag rt now st) ! i) =
           (parseInt (style_left (document st ! h)), parseInt (style_top (document st ! h))) \<and>
         position (cards (stopDrag rt now (handleDrag rt p st)) ! i) =
           (parseInt (px rt (Num (fst p - fst (mouseOffset st)))),
            parseInt (px rt (Num (snd p - snd (mouseOffset st))))) \<and>
         (decimalNotation (fst p - fst (mouseOffset st)) (numToString rt (fst p - fst (mouseOffset st))) \<and>
          decimalNotation (snd p - snd (mouseOffset st)) (numToString rt (snd p - snd (mouseOffset st)))
          \<longrightarrow>
          position (cards (stopDrag rt now (handleDrag rt p st)) ! i) =
            (Num (of_int (truncToZero (fst p - fst (mouseOffset st)))),
             Num (of_int (truncToZero (snd p - snd (mouseOffset st)))))) \<and>
         (g_isDragging gs \<and> g_draggedCard gs = Some gh \<and> gh < length (elements gs) \<and>
          findGridCellUnderMouse x y gs = None \<and>
          findIndex (\<lambda>data. g_id data = ce_id (elements gs ! gh)) (cardData gs) = Some gi
          \<longrightarrow>
          (\<exists>s'. stopDragging (x, y) gs = Inr s' \<and>
                g_freePosition (cardData s' ! gi) =
                  Some (parseInt (ce_left (elements gs ! gh)), parseInt (ce_top (elements gs ! gh))) \<and>
                g_position (cardData s' ! gi) = None))"
  using stopDrag_position_nth [OF assms] move_release_position [OF assms]
    stopDragging_free [of gs gh x y gi]
  by (simp add: parseInt_px_decimal)

text \<open>
  C5 as stated fails: a card released 50 pixels left of the viewport and 1990 pixels down
  is stored at \<^verbatim>\<open>{x: -50, y: 1990}\<close>.
\<close>

theorem release_not_clamped_counterexample:
  "position (cards (run rt0 [Press pressCard1, Move (-40, 2000), Release 1700000000000] ready) ! 0)
     = (Num (- 50), Num 1990)"
  by code_simp

theorem release_stores_unclamped_parse_witness:
  "isDragging dragged1 \<and> draggedCard dragged1 = Some 0 \<and>
   0 < length (document dragged1) \<and>
   findIndex (\<lambda>data. card_id data = el_id (document dragged1 ! 0)) (cards dragged1) = Some 0 \<and>
   mouseOffset dragged1 = (10, 10) \<and>
   decimalNotation (-50.5) (numToString rt0 (-50.5)) \<and>
   decimalNotation 1990 (numToString rt0 1990) \<and>
   position (cards (stopDrag rt0 1700000000000 (handleDrag rt0 (-40.5, 2000) dragged1)) ! 0)
     = (Num (- 50), Num 1990) \<and>
   g_isDragging card1Moved \<and> g_draggedCard card1Moved = Some 0 \<and>
   0 < length (elements card1Moved) \<and>
   findGridCellUnderMouse (-40) 900 card1Moved = None \<and>
   findIndex (\<lambda>data. g_id data = ce_id (elements card1Moved ! 0)) (cardData card1Moved) = Some 0 \<and>
   (\<exists>s'. stopDragging (-40, 900) card1Moved = Inr s' \<and>
         g_freePosition (cardData s' ! 0) = Some (Num (- 50), Num 890))"
proof -
  have a: "isDragging dragged1" "draggedCard dragged1 = Some 0" "0 < length (document dragged1)"
    "findIndex (\<lambda>data. card_id data = el_id (document dragged1 ! 0)) (cards dragged1) = Some 0"
    by code_simp+
  have off: "mouseOffset dragged1 = (10, 10)" by code_simp
  have d: "decimalNotation (-50.5) (numToString rt0 (-50.5))"
    "decimalNotation 1990 (numToString rt0 1990)"
    by code_simp+
  have t: "truncToZero (-50.5) = -50" "truncToZero 1990 = 1990" by (simp_all add: truncToZero_def)
  have g: "g_isDragging card1Moved" "g_draggedCard card1Moved = Some 0"
    "0 < length (elements card1Moved)"
    "findGridCellUnderMouse (-40) 900 card1Moved = None"
    "findIndex (\<lambda>data. g_id data = ce_id (elements card1Moved ! 0)) (cardData card1Moved) = Some 0"
    by code_simp+
  have gv: "parseInt (ce_left (elements card1Moved ! 0)) = Num (- 50)"
    "parseInt (ce_top (elements card1Moved ! 0)) = Num 890"
    by code_simp+
  note rel = release_stores_unclamped_parse [OF a, of rt0 1700000000000 "(-40.5, 2000)"
      card1Moved 0 "-40" 900 0]
  from rel [THEN conjunct2, THEN conjunct2, THEN conjunct1]
  have v1: "position (cards (stopDrag rt0 1700000000000 (handleDrag rt0 (-40.5, 2000) dragged1)) ! 0)
          = (Num (- 50), Num 1990)"
    using off d t by simp
  from rel [THEN conjunct2, THEN conjunct2, THEN conjunct2] g gv
  have v2: "\<exists>s'. stopDragging (-40, 900) card1Moved = Inr s' \<and>
         g_freePosition (cardData s' ! 0) = Some (Num (- 50), Num 890)"
    by auto
  from a off d v1 g v2 show ?thesis by blast
qed


end
